theory Spec2Isabelle
  imports Complex_Main "HOL-Library.Multiset" "HOL-Library.List_Lexorder" "HOL-Library.Char_ord"
begin

text \<open>
  A shallow embedding of the route optimisation controller: the distance model, the route
  metrics, the savings phase of the two Clarke-Wright constructors, the 3-opt pass of the
  local search, the moves of the metaheuristics, Nearest Neighbor, the vehicle assignment,
  the request validation and the winner selection of the comparison driver. Every
  function is translated from the source under its own name; state that the source
  updates in place is passed in and returned, and every draw of \<open>Math.random\<close> is an
  argument.
\<close>

section \<open>JavaScript numbers\<close>

text \<open>
  The solver computes with JavaScript numbers, the doubles of IEEE 754 (binary64). A
  number is modelled as a real that is a double, or one of the three special values
  \<open>NaN\<close>, \<open>Infinity\<close> and \<open>-Infinity\<close>. The sign of zero is not modelled: the code never
  divides by a computed zero and never inspects the sign of a zero.
\<close>

datatype jsnum = Num real | NaN | PInf | NInf

text \<open>
  Rounding to the nearest double, a tie going to the even significand. \<open>binade x\<close> is
  the exponent of \<open>x\<close> (at least \<open>-1022\<close>, below which the doubles are subnormal), \<open>ulp x\<close>
  the distance between neighbouring doubles there (53 bits of significand), and \<open>fl x\<close>
  the double nearest to the real \<open>x\<close>, which is infinite from \<open>2^1024\<close> on.
\<close>

definition round_even :: "real \<Rightarrow> int" where
  "round_even q =
     (let f = \<lfloor>q\<rfloor>; r = q - of_int f
      in if r < 1 / 2 then f else if 1 / 2 < r then f + 1 else if even f then f else f + 1)"

definition binade :: "real \<Rightarrow> int" where
  "binade x = max \<lfloor>log 2 \<bar>x\<bar>\<rfloor> (- 1022)"

definition ulp :: "real \<Rightarrow> real" where
  "ulp x = 2 powr of_int (binade x - 52)"

definition fl :: "real \<Rightarrow> jsnum" where
  "fl x =
     (if x = 0 then Num 0
      else
        let y = of_int (round_even (x / ulp x)) * ulp x
        in if 2 ^ 1024 \<le> \<bar>y\<bar> then (if 0 < x then PInf else NInf) else Num y)"

text \<open>
  The arithmetic operators: on two finite numbers the exact result, rounded; on the
  special values as IEEE 754 prescribes.
\<close>

fun jneg :: "jsnum \<Rightarrow> jsnum" where
  "jneg (Num a) = Num (- a)"
| "jneg NaN = NaN"
| "jneg PInf = NInf"
| "jneg NInf = PInf"

fun jadd :: "jsnum \<Rightarrow> jsnum \<Rightarrow> jsnum" where
  "jadd (Num a) (Num b) = fl (a + b)"
| "jadd NaN _ = NaN"
| "jadd _ NaN = NaN"
| "jadd PInf NInf = NaN"
| "jadd NInf PInf = NaN"
| "jadd PInf _ = PInf"
| "jadd _ PInf = PInf"
| "jadd NInf _ = NInf"
| "jadd _ NInf = NInf"

definition jsub :: "jsnum \<Rightarrow> jsnum \<Rightarrow> jsnum" where
  "jsub x y = jadd x (jneg y)"

text \<open>The sign of a number that is not \<open>NaN\<close>: \<open>-1\<close>, \<open>0\<close> or \<open>1\<close>.\<close>

fun jsign :: "jsnum \<Rightarrow> int" where
  "jsign (Num a) = (if a < 0 then - 1 else if a = 0 then 0 else 1)"
| "jsign NaN = 0"
| "jsign PInf = 1"
| "jsign NInf = - 1"

definition inf_of_sign :: "int \<Rightarrow> jsnum" where
  "inf_of_sign s = (if s = 0 then NaN else if s < 0 then NInf else PInf)"

fun jmul :: "jsnum \<Rightarrow> jsnum \<Rightarrow> jsnum" where
  "jmul (Num a) (Num b) = fl (a * b)"
| "jmul NaN _ = NaN"
| "jmul _ NaN = NaN"
| "jmul x y = inf_of_sign (jsign x * jsign y)"

text \<open>Division; a zero divisor is read as \<open>+0\<close>.\<close>

fun jdiv :: "jsnum \<Rightarrow> jsnum \<Rightarrow> jsnum" where
  "jdiv NaN _ = NaN"
| "jdiv _ NaN = NaN"
| "jdiv (Num a) (Num b) = (if b = 0 then inf_of_sign (jsign (Num a)) else fl (a / b))"
| "jdiv (Num a) _ = Num 0"
| "jdiv x (Num b) = inf_of_sign (jsign x * (if b < 0 then - 1 else 1))"
| "jdiv _ _ = NaN"

text \<open>The comparisons \<open>x < y\<close> and \<open>x <= y\<close>: false whenever an operand is \<open>NaN\<close>.\<close>

fun jlt :: "jsnum \<Rightarrow> jsnum \<Rightarrow> bool" where
  "jlt (Num a) (Num b) = (a < b)"
| "jlt NaN _ = False"
| "jlt _ NaN = False"
| "jlt PInf _ = False"
| "jlt _ NInf = False"
| "jlt _ PInf = True"
| "jlt NInf _ = True"

fun jle :: "jsnum \<Rightarrow> jsnum \<Rightarrow> bool" where
  "jle (Num a) (Num b) = (a \<le> b)"
| "jle NaN _ = False"
| "jle _ NaN = False"
| "jle NInf _ = True"
| "jle _ PInf = True"
| "jle PInf _ = False"
| "jle _ NInf = False"

text \<open>Truthiness of a number, as \<open>||\<close> and \<open>!\<close> read it: \<open>0\<close> and \<open>NaN\<close> are falsy.\<close>

fun truthy :: "jsnum \<Rightarrow> bool" where
  "truthy (Num a) = (a \<noteq> 0)"
| "truthy NaN = False"
| "truthy PInf = True"
| "truthy NInf = True"

text \<open>\<open>x || 0\<close> on a number.\<close>

definition or_zero :: "jsnum \<Rightarrow> jsnum" where
  "or_zero x = (if truthy x then x else Num 0)"

text \<open>
  \<open>Math.max\<close> of two numbers; \<open>Math.max (...xs)\<close> folds it over the arguments from
  \<open>-Infinity\<close>.
\<close>

fun jmax :: "jsnum \<Rightarrow> jsnum \<Rightarrow> jsnum" where
  "jmax NaN _ = NaN"
| "jmax _ NaN = NaN"
| "jmax a b = (if jlt a b then b else a)"

text \<open>
  \<open>Math.round\<close>: the nearest integer, a tie going up. The result is exact: a double
  below \<open>2^52\<close> in magnitude rounds to an integer that is a double, and a larger double
  is an integer.
\<close>

fun math_round :: "jsnum \<Rightarrow> jsnum" where
  "math_round (Num a) = Num (of_int \<lfloor>a + 1 / 2\<rfloor>)"
| "math_round x = x"

text \<open>
  \<open>Math.PI\<close> is the double nearest to \<open>\<pi>\<close>. ECMAScript leaves the accuracy of \<open>Math.sin\<close>,
  \<open>Math.cos\<close>, \<open>Math.atan2\<close> and of \<open>**\<close> to the implementation; the model takes the
  correctly rounded result, which is one conforming implementation, and reads \<open>x ** 2\<close>
  as \<open>x * x\<close>. \<open>Math.sqrt\<close> is the correctly rounded square root.
\<close>

definition math_PI :: jsnum where
  "math_PI = fl pi"

fun math_sin :: "jsnum \<Rightarrow> jsnum" where
  "math_sin (Num a) = fl (sin a)"
| "math_sin _ = NaN"

fun math_cos :: "jsnum \<Rightarrow> jsnum" where
  "math_cos (Num a) = fl (cos a)"
| "math_cos _ = NaN"

fun math_sqrt :: "jsnum \<Rightarrow> jsnum" where
  "math_sqrt (Num a) = (if a < 0 then NaN else fl (sqrt a))"
| "math_sqrt PInf = PInf"
| "math_sqrt _ = NaN"

text \<open>The angle of the point \<open>(x, y)\<close>, and \<open>Math.atan2 (y, x)\<close>.\<close>

definition atan2 :: "real \<Rightarrow> real \<Rightarrow> real" where
  "atan2 y x =
     (if 0 < x then arctan (y / x)
      else if x < 0 then (if 0 \<le> y then arctan (y / x) + pi else arctan (y / x) - pi)
      else if 0 < y then pi / 2
      else if y < 0 then - (pi / 2)
      else 0)"

fun math_atan2 :: "jsnum \<Rightarrow> jsnum \<Rightarrow> jsnum" where
  "math_atan2 (Num y) (Num x) = fl (atan2 y x)"
| "math_atan2 NaN _ = NaN"
| "math_atan2 _ NaN = NaN"
| "math_atan2 (Num y) PInf = Num 0"
| "math_atan2 (Num y) NInf = fl (if y < 0 then - pi else pi)"
| "math_atan2 PInf (Num x) = fl (pi / 2)"
| "math_atan2 NInf (Num x) = fl (- (pi / 2))"
| "math_atan2 PInf PInf = fl (pi / 4)"
| "math_atan2 PInf NInf = fl (3 * pi / 4)"
| "math_atan2 NInf PInf = fl (- (pi / 4))"
| "math_atan2 NInf NInf = fl (- (3 * pi / 4))"

section \<open>Data model\<close>

text \<open>
  A coordinate as \<open>calculateDistance\<close> can receive it: a number, or a value whose
  \<open>typeof\<close> is not \<open>'number'\<close> (\<open>undefined\<close>, \<open>null\<close>, a string).
\<close>

datatype jsval = Number jsnum | NotANumber

text \<open>
  A stop of a route. Identifiers are the strings that \<open>toString\<close> gives; demands and
  capacities are numbers, read through \<open>x || 0\<close> wherever the source does (a missing one
  is read as \<open>NaN\<close> is).
\<close>

record stop =
  locationId :: string
  locationName :: string
  latitude :: jsval
  longitude :: jsval
  demand :: jsnum
  order :: nat

text \<open>
  A route. \<open>vehicle\<close> is \<open>None\<close> where the code holds \<open>undefined\<close> or \<open>null\<close>;
  \<open>capacityExceeded\<close> is \<open>None\<close> where the field was never written.
\<close>

record route =
  vehicle :: "string option"
  vehicleName :: string
  stops :: "stop list"
  distance :: jsnum
  duration :: jsnum
  totalCapacity :: jsnum
  capacityExceeded :: "bool option"

section \<open>Tabu Search: the solution key\<close>

text \<open>\<open>Array.prototype.join\<close> on strings.\<close>

fun join :: "string \<Rightarrow> string list \<Rightarrow> string" where
  "join sep [] = []"
| "join sep [x] = x"
| "join sep (x # y # ys) = x @ sep @ join sep (y # ys)"

text \<open>
  \<open>generateSolutionKey\<close>. \<open>Array.prototype.sort\<close> without a comparator orders strings by
  their code units, lexicographically; that is the order of \<open>char list\<close> here.
\<close>

definition generateSolutionKey :: "route list \<Rightarrow> string" where
  "generateSolutionKey solution =
     join ''|'' (sort (map (\<lambda>route. join ''-'' (map locationId (stops route))) solution))"

section \<open>Comparison driver: winner selection\<close>

text \<open>
  One entry of \<open>algorithmResults\<close> (its field \<open>routes\<close> is \<open>resultRoutes\<close> here). The driver computes \<open>coveragePercentage\<close> as
  \<open>served / total * 100\<close> or \<open>0\<close>, and \<open>totalDistance\<close> as a sum of \<open>route.distance || 0\<close>,
  so both are finite numbers. \<open>error\<close> is the message of the caught exception, absent on
  success.
\<close>

record algorithmResult =
  algorithm :: string
  algorithmKey :: string
  resultRoutes :: "route list"
  totalDistance :: real
  totalDuration :: real
  coveragePercentage :: real
  error :: "string option"

text \<open>\<open>!r.error\<close>: an absent message and the empty string are falsy.\<close>

definition no_error :: "algorithmResult \<Rightarrow> bool" where
  "no_error r = (case error r of None \<Rightarrow> True | Some m \<Rightarrow> m = [])"

text \<open>\<open>r.totalDistance || Infinity\<close>.\<close>

definition distance_or_infinity :: "algorithmResult \<Rightarrow> jsnum" where
  "distance_or_infinity r = (if truthy (Num (totalDistance r)) then Num (totalDistance r) else PInf)"

text \<open>\<open>Math.max\<close> over a list of finite numbers; \<open>-Infinity\<close> on the empty list.\<close>

fun math_max :: "real list \<Rightarrow> jsnum" where
  "math_max [] = NInf"
| "math_max (x # xs) = (case math_max xs of Num m \<Rightarrow> Num (max x m) | _ \<Rightarrow> Num x)"

text \<open>\<open>Array.prototype.reduce\<close> without an initial value; it throws on the empty array.\<close>

fun reduce :: "('a \<Rightarrow> 'a \<Rightarrow> 'a) \<Rightarrow> 'a list \<Rightarrow> 'a option" where
  "reduce f [] = None"
| "reduce f (x # xs) = Some (foldl f x xs)"

text \<open>
  The selection of \<open>bestResult\<close> in \<open>createOptimization\<close>. \<open>None\<close> stands for the
  \<open>TypeError\<close> that ends the request when there is no result to select.
\<close>

definition bestResult :: "algorithmResult list \<Rightarrow> algorithmResult option" where
  "bestResult algorithmResults =
     (let validResults = filter no_error algorithmResults in
      if length validResults > 0 then
        (let maxCoverage = math_max (map coveragePercentage validResults);
             maxCoverageResults =
               filter (\<lambda>r. Num (coveragePercentage r) = maxCoverage) validResults
         in if length maxCoverageResults = 1 then Some (maxCoverageResults ! 0)
            else reduce (\<lambda>best current.
                   if jlt (distance_or_infinity current) (distance_or_infinity best)
                   then current else best) maxCoverageResults)
      else (case algorithmResults of [] \<Rightarrow> None | r # _ \<Rightarrow> Some r))"

section \<open>Problem instance\<close>

text \<open>
  A location and a vehicle type as the database returns them. The fields \<open>_id\<close>, \<open>name\<close>,
  \<open>latitude\<close>, \<open>longitude\<close> and \<open>demand\<close> of a location carry the prefix \<open>loc_\<close>, and
  \<open>_id\<close> and \<open>name\<close> of a vehicle the prefix \<open>v_\<close>, to keep them apart from the fields of a
  stop. The \<open>count\<close> of a vehicle type is an integer.
\<close>

record location =
  loc_id :: string
  loc_name :: string
  loc_latitude :: jsval
  loc_longitude :: jsval
  loc_demand :: jsnum
  isDepot :: bool

record vehicleType =
  v_id :: string
  v_name :: string
  capacity :: jsnum
  count :: int

section \<open>Request validation in \<open>createOptimization\<close>\<close>

text \<open>
  The request body. \<open>name\<close> is \<open>None\<close> when it is missing or not a string; \<open>vehicleIds\<close>
  and \<open>locationIds\<close> are \<open>None\<close> when they are not arrays.
\<close>

record request =
  name :: "string option"
  vehicleIds :: "string list option"
  locationIds :: "string list option"
  algorithmName :: string
  runComparison :: bool

text \<open>A response that ends the request with status 400 and a message.\<close>

datatype response = BadRequest string

text \<open>\<open>String.prototype.trim\<close> over the white space of the one-byte code units.\<close>

definition is_white_space :: "char \<Rightarrow> bool" where
  "is_white_space c = (of_char c \<in> {9, 10, 11, 12, 13, 32, 160 :: nat})"

definition trim :: "string \<Rightarrow> string" where
  "trim s = rev (dropWhile is_white_space (rev (dropWhile is_white_space s)))"

text \<open>
  The checks of \<open>createOptimization\<close> up to the construction of the algorithm table, in the
  order of the source. \<open>vehicles\<close> and \<open>locations\<close> are what the two database queries
  return for the identifiers of the request. The result is the response that ends the
  request, or the instance that the algorithms are run on.
\<close>

definition validate ::
  "request \<Rightarrow> vehicleType list \<Rightarrow> location list \<Rightarrow>
   response + (vehicleType list \<times> location list \<times> location)" where
  "validate req vehicles locations =
     (if (case name req of None \<Rightarrow> True | Some n \<Rightarrow> n = [] \<or> length (trim n) = 0)
      then Inl (BadRequest ''Valid optimization name is required'')
      else if (case vehicleIds req of None \<Rightarrow> True | Some ids \<Rightarrow> length ids = 0)
      then Inl (BadRequest ''At least one vehicle must be selected'')
      else if (case locationIds req of None \<Rightarrow> True | Some ids \<Rightarrow> length ids = 0)
      then Inl (BadRequest ''At least one location must be selected'')
      else if length (the (locationIds req)) > 100
      then Inl (BadRequest ''Maximum 100 locations allowed for optimization. Please reduce the number of locations.'')
      else if length (the (vehicleIds req)) > 20
      then Inl (BadRequest ''Maximum 20 vehicles allowed for optimization. Please reduce the number of vehicles.'')
      else if length vehicles = 0
      then Inl (BadRequest ''No valid vehicles found. Please check your vehicle selection.'')
      else if length locations = 0
      then Inl (BadRequest ''No valid locations found. Please check your location selection.'')
      else (case find isDepot locations of
              None \<Rightarrow> Inl (BadRequest ''At least one location must be marked as a depot'')
            | Some depot \<Rightarrow> Inr (vehicles, locations, depot)))"

text \<open>
  The handler: the algorithms (\<open>run\<close>, which stands for everything after the checks) are
  called only on an instance that passed every check.
\<close>

definition createOptimization ::
  "request \<Rightarrow> vehicleType list \<Rightarrow> location list \<Rightarrow>
   (vehicleType list \<Rightarrow> location list \<Rightarrow> location \<Rightarrow> 'a) \<Rightarrow> response + 'a" where
  "createOptimization req vehicles locations run =
     (case validate req vehicles locations of
        Inl r \<Rightarrow> Inl r
      | Inr (vs, ls, depot) \<Rightarrow> Inr (run vs ls depot))"

section \<open>Distance model\<close>

text \<open>\<open>toRad\<close>: \<open>deg * Math.PI / 180\<close>.\<close>

definition toRad :: "jsnum \<Rightarrow> jsnum" where
  "toRad deg = jdiv (jmul deg math_PI) (Num 180)"

text \<open>The body of \<open>calculateDistance\<close> after its guard, on four numbers.\<close>

definition haversine_km :: "jsnum \<Rightarrow> jsnum \<Rightarrow> jsnum \<Rightarrow> jsnum \<Rightarrow> jsnum" where
  "haversine_km lat1 lon1 lat2 lon2 =
     (let R = Num 6371;
          dLat = toRad (jsub lat2 lat1);
          dLon = toRad (jsub lon2 lon1);
          sLat = math_sin (jdiv dLat (Num 2));
          sLon = math_sin (jdiv dLon (Num 2));
          a = jadd (jmul sLat sLat)
                (jmul (jmul (math_cos (toRad lat1)) (math_cos (toRad lat2))) (jmul sLon sLon));
          c = jmul (Num 2) (math_atan2 (math_sqrt a) (math_sqrt (jsub (Num 1) a)))
      in jdiv (math_round (jmul (jmul R c) (Num 1000))) (Num 1000))"

text \<open>
  \<open>calculateDistance\<close>. The guard returns \<open>0\<close> when a coordinate is not of type number or
  is \<open>NaN\<close> (\<open>typeof x !== 'number'\<close>, \<open>isNaN (x)\<close>); an infinite coordinate passes it.
\<close>

fun calculateDistance :: "jsval \<Rightarrow> jsval \<Rightarrow> jsval \<Rightarrow> jsval \<Rightarrow> jsnum" where
  "calculateDistance (Number lat1) (Number lon1) (Number lat2) (Number lon2) =
     (if lat1 = NaN \<or> lon1 = NaN \<or> lat2 = NaN \<or> lon2 = NaN then Num 0
      else haversine_km lat1 lon1 lat2 lon2)"
| "calculateDistance _ _ _ _ = Num 0"

section \<open>Route metrics\<close>

text \<open>
  The distance matrix \<open>distances\<close>: an object of rows keyed by identifier, each row an
  object keyed by identifier. \<open>entry\<close> is the read \<open>distances[a]?.[b]\<close>, \<open>None\<close> where it
  gives \<open>undefined\<close>.
\<close>

type_synonym matrix = "string \<Rightarrow> (string \<Rightarrow> jsnum option) option"

definition entry :: "matrix \<Rightarrow> string \<Rightarrow> string \<Rightarrow> jsnum option" where
  "entry distances a b = (case distances a of None \<Rightarrow> None | Some row \<Rightarrow> row b)"

text \<open>
  The matrix that every algorithm builds from the locations of the instance:
  \<open>distances[id1][id2] = calculateDistance (l1.latitude, l1.longitude, l2.latitude,
  l2.longitude)\<close> in two nested \<open>forEach\<close> loops, so that of two locations with one
  identifier the later one is read.
\<close>

definition distance_matrix :: "location list \<Rightarrow> matrix" where
  "distance_matrix locations id1 =
     (case find (\<lambda>l. loc_id l = id1) (rev locations) of
        None \<Rightarrow> None
      | Some l1 \<Rightarrow>
          Some (\<lambda>id2. case find (\<lambda>l. loc_id l = id2) (rev locations) of
                  None \<Rightarrow> None
                | Some l2 \<Rightarrow>
                    Some (calculateDistance (loc_latitude l1) (loc_longitude l1)
                            (loc_latitude l2) (loc_longitude l2))))"

definition stop_distance :: "stop \<Rightarrow> stop \<Rightarrow> jsnum" where
  "stop_distance a b = calculateDistance (latitude a) (longitude a) (latitude b) (longitude b)"

text \<open>
  The length of one leg, in the three ways the source reads it:
  \<open>distances[a]?.[b] ?? calculateDistance (\<dots>)\<close>,
  \<open>distances[a]?.[b] || calculateDistance (\<dots>)\<close> and \<open>distances[a]?.[b] || 0\<close>.
\<close>

definition leg_nullish :: "matrix \<Rightarrow> stop \<Rightarrow> stop \<Rightarrow> jsnum" where
  "leg_nullish distances a b =
     (case entry distances (locationId a) (locationId b) of
        Some d \<Rightarrow> d
      | None \<Rightarrow> stop_distance a b)"

definition leg_or :: "matrix \<Rightarrow> stop \<Rightarrow> stop \<Rightarrow> jsnum" where
  "leg_or distances a b =
     (case entry distances (locationId a) (locationId b) of
        Some d \<Rightarrow> if truthy d then d else stop_distance a b
      | None \<Rightarrow> stop_distance a b)"

definition leg_or_zero :: "matrix \<Rightarrow> stop \<Rightarrow> stop \<Rightarrow> jsnum" where
  "leg_or_zero distances a b =
     (case entry distances (locationId a) (locationId b) of
        Some d \<Rightarrow> if truthy d then d else Num 0
      | None \<Rightarrow> Num 0)"

text \<open>
  The loop \<open>for (k = 0; k < stops.length - 1; k++) acc += leg (stops[k], stops[k + 1])\<close>,
  with its accumulator.
\<close>

fun sum_legs :: "(stop \<Rightarrow> stop \<Rightarrow> jsnum) \<Rightarrow> stop list \<Rightarrow> jsnum \<Rightarrow> jsnum" where
  "sum_legs leg (a # b # rest) acc = sum_legs leg (b # rest) (jadd acc (leg a b))"
| "sum_legs leg _ acc = acc"

text \<open>\<open>Math.round ((dist / speedKmh) * 60)\<close>.\<close>

definition duration_of :: "jsnum \<Rightarrow> jsnum \<Rightarrow> jsnum" where
  "duration_of d speedKmh = math_round (jmul (jdiv d speedKmh) (Num 60))"

text \<open>
  \<open>recomputeRouteMetrics\<close>, the closure of both Clarke-Wright constructors
  (\<open>speedKmh = 40\<close>). The route is updated in place; the model returns it.
\<close>

definition recomputeRouteMetrics :: "matrix \<Rightarrow> route \<Rightarrow> route" where
  "recomputeRouteMetrics distances rt =
     (let d = sum_legs (leg_nullish distances) (stops rt) (Num 0)
      in rt\<lparr>distance := d, duration := duration_of d (Num 40)\<rparr>)"

text \<open>\<open>recomputeAllRouteMetrics\<close>, which updates every route of the solution.\<close>

definition recomputeAllRouteMetrics :: "matrix \<Rightarrow> jsnum \<Rightarrow> route list \<Rightarrow> route list" where
  "recomputeAllRouteMetrics distances speedKmh solution =
     map (\<lambda>route.
            let d = sum_legs (leg_or distances) (stops route) (Num 0)
            in route\<lparr>distance := d, duration := duration_of d speedKmh\<rparr>) solution"


text \<open>\<open>calculateTotalCost\<close>.\<close>

definition calculateTotalCost :: "matrix \<Rightarrow> route list \<Rightarrow> jsnum" where
  "calculateTotalCost distances solution =
     foldl (\<lambda>total route. jadd total (sum_legs (leg_or_zero distances) (stops route) (Num 0)))
       (Num 0) solution"

text \<open>
  The sum of the spec, \<open>\<Sum> matrix[stops[i].id, stops[i+1].id]\<close>, as a real number, over
  the legs whose matrix entry is a finite number.
\<close>

definition finite_entry :: "matrix \<Rightarrow> stop list \<Rightarrow> nat \<Rightarrow> real option" where
  "finite_entry distances ss k =
     (case entry distances (locationId (ss ! k)) (locationId (ss ! (k + 1))) of
        Some (Num d) \<Rightarrow> Some d
      | _ \<Rightarrow> None)"


text \<open>
  The routes of an instance within the limits of the service: at most 102 stops (the
  depot twice and at most 100 locations), and for every leg a matrix entry that is a
  finite distance between \<open>0\<close> and \<open>26000\<close> km, as every finite distance is that
  \<open>calculateDistance\<close> computes.
\<close>

definition bounded_legs :: "matrix \<Rightarrow> stop list \<Rightarrow> bool" where
  "bounded_legs distances ss =
     (length ss \<le> 102 \<and>
      (\<forall>k\<in>set [0..<length ss - 1].
         case finite_entry distances ss k of Some d \<Rightarrow> 0 \<le> d \<and> d \<le> 26000 | None \<Rightarrow> False))"


section \<open>Clarke-Wright: the savings phase\<close>

text \<open>\<open>Array.prototype.findIndex\<close>; \<open>None\<close> stands for \<open>-1\<close>.\<close>

fun findIndex :: "('a \<Rightarrow> bool) \<Rightarrow> 'a list \<Rightarrow> nat option" where
  "findIndex P [] = None"
| "findIndex P (x # xs) = (if P x then Some 0 else map_option Suc (findIndex P xs))"

text \<open>
  \<open>findRouteIndexByLocation\<close>: the first route that holds a stop with the identifier, and
  the index of the first such stop in it.
\<close>

fun findRouteIndexByLocation :: "route list \<Rightarrow> string \<Rightarrow> (nat \<times> nat) option" where
  "findRouteIndexByLocation [] idStr = None"
| "findRouteIndexByLocation (rt # rest) idStr =
     (case findIndex (\<lambda>s. locationId s = idStr) (stops rt) of
        Some foundIdx \<Rightarrow> Some (0, foundIdx)
      | None \<Rightarrow> map_option (\<lambda>(r, foundIdx). (Suc r, foundIdx)) (findRouteIndexByLocation rest idStr))"

definition isStartEndpoint :: "route \<Rightarrow> nat \<Rightarrow> bool" where
  "isStartEndpoint rt idx = (idx = 1)"

definition isEndEndpoint :: "route \<Rightarrow> nat \<Rightarrow> bool" where
  "isEndEndpoint rt idx = (int idx = int (length (stops rt)) - 2)"

text \<open>\<open>stops.map ((st, idx) => ({ ...st, order: idx }))\<close>.\<close>

definition renumber :: "stop list \<Rightarrow> stop list" where
  "renumber ss = map (\<lambda>(idx, st). st\<lparr>order := idx\<rparr>) (enumerate 0 ss)"

text \<open>\<open>xs.splice (i, 1)\<close> and \<open>xs.splice (i, 1, x)\<close>, as the array they leave.\<close>

definition splice_remove :: "nat \<Rightarrow> 'a list \<Rightarrow> 'a list" where
  "splice_remove i xs = take i xs @ drop (Suc i) xs"

definition splice_replace :: "nat \<Rightarrow> 'a \<Rightarrow> 'a list \<Rightarrow> 'a list" where
  "splice_replace i x xs = take i xs @ x # drop (Suc i) xs"

text \<open>
  \<open>maxCapacity\<close>:
  \<open>vehicles.length > 0 ? Math.max (...vehicles.map ((v) => v.capacity || 0)) : 0\<close>.
\<close>

definition maxCapacity :: "vehicleType list \<Rightarrow> jsnum" where
  "maxCapacity vehicles =
     (if length vehicles > 0 then foldl jmax NInf (map (\<lambda>v. or_zero (capacity v)) vehicles)
      else Num 0)"

text \<open>
  One entry of the savings list: the two locations and the score it was sorted by.
\<close>

type_synonym saving = "location \<times> location \<times> jsnum"

text \<open>
  One round of the loop \<open>for (const s of savings)\<close>, from the routes before it to the
  routes after it. The loop is the same text in \<open>clarkeWrightAlgorithm\<close> and in
  \<open>enhancedClarkeWrightAlgorithm\<close>; the two constructors differ in the score, that is in
  the order of the savings list.
\<close>

definition cw_merge_step :: "matrix \<Rightarrow> jsnum \<Rightarrow> route list \<Rightarrow> saving \<Rightarrow> route list" where
  "cw_merge_step distances maxCap routes s =
     (case s of (li, lj, score) \<Rightarrow>
      (case findRouteIndexByLocation routes (loc_id li) of
         None \<Rightarrow> routes
       | Some (routeIndexI, stopIndexI) \<Rightarrow>
      (case findRouteIndexByLocation routes (loc_id lj) of
         None \<Rightarrow> routes
       | Some (routeIndexJ, stopIndexJ) \<Rightarrow>
         if routeIndexI = routeIndexJ then routes
         else
           let r1 = routes ! routeIndexI;
               r2 = routes ! routeIndexJ;
               iAtEndOfR1 = isEndEndpoint r1 stopIndexI;
               iAtStartOfR1 = isStartEndpoint r1 stopIndexI;
               jAtEndOfR2 = isEndEndpoint r2 stopIndexJ;
               jAtStartOfR2 = isStartEndpoint r2 stopIndexJ;
               newStops =
                 (if iAtEndOfR1 \<and> jAtStartOfR2 then Some (butlast (stops r1) @ tl (stops r2))
                  else if jAtEndOfR2 \<and> iAtStartOfR1 then Some (butlast (stops r2) @ tl (stops r1))
                  else None)
           in (case newStops of
                 None \<Rightarrow> routes
               | Some ns \<Rightarrow>
                   let combinedDemand =
                         jadd (or_zero (totalCapacity r1)) (or_zero (totalCapacity r2))
                   in if jlt maxCap combinedDemand then routes
                      else
                        let merged = recomputeRouteMetrics distances
                              \<lparr>vehicle = None, vehicleName = ''Unassigned'',
                               stops = renumber ns, distance = Num 0, duration = Num 0,
                               totalCapacity = combinedDemand, capacityExceeded = None\<rparr>;
                            idxToRemove = max routeIndexI routeIndexJ;
                            idxToReplace = min routeIndexI routeIndexJ
                        in splice_replace idxToReplace merged (splice_remove idxToRemove routes)))))"

definition cw_savings_phase :: "matrix \<Rightarrow> jsnum \<Rightarrow> saving list \<Rightarrow> route list \<Rightarrow> route list" where
  "cw_savings_phase distances maxCap savings routes =
     foldl (cw_merge_step distances maxCap) routes savings"

text \<open>The initial routes \<open>depot \<rightarrow> i \<rightarrow> depot\<close> of both constructors.\<close>

definition makeDepotStop :: "location \<Rightarrow> nat \<Rightarrow> stop" where
  "makeDepotStop depot ord =
     \<lparr>locationId = loc_id depot, locationName = loc_name depot, latitude = loc_latitude depot,
      longitude = loc_longitude depot, demand = or_zero (loc_demand depot), order = ord\<rparr>"

definition cw_initial_route :: "matrix \<Rightarrow> location \<Rightarrow> location \<Rightarrow> route" where
  "cw_initial_route distances depot loc =
     (let d = (case entry distances (loc_id depot) (loc_id loc) of
                 Some x \<Rightarrow> jmul x (Num 2) | None \<Rightarrow> NaN)
      in \<lparr>vehicle = None, vehicleName = ''Unassigned'',
          stops = [makeDepotStop depot 0,
                   \<lparr>locationId = loc_id loc, locationName = loc_name loc,
                    latitude = loc_latitude loc, longitude = loc_longitude loc,
                    demand = or_zero (loc_demand loc), order = 1\<rparr>,
                   makeDepotStop depot 2],
          distance = d, duration = duration_of d (Num 40),
          totalCapacity = or_zero (loc_demand loc), capacityExceeded = None\<rparr>)"

section \<open>Local search: the 3-opt pass\<close>

text \<open>\<open>calcDist\<close> of \<open>improveRouteWithLocalSearch\<close>.\<close>

definition calcDist :: "matrix \<Rightarrow> stop list \<Rightarrow> jsnum" where
  "calcDist distances seq = sum_legs (leg_nullish distances) seq (Num 0)"

text \<open>\<open>xs.slice (a, b)\<close> for \<open>0 \<le> a \<le> b\<close>.\<close>

definition slice :: "nat \<Rightarrow> nat \<Rightarrow> 'a list \<Rightarrow> 'a list" where
  "slice a b xs = drop a (take b xs)"

text \<open>
  The array \<open>candidates\<close> of \<open>threeOptOnce\<close>. Its six elements are built in order, and
  \<open>Array.prototype.reverse\<close> reverses its array in place: \<open>B1\<close>, \<open>C1\<close>, \<open>C2\<close>, \<open>B2\<close> and
  \<open>C3\<close> are the contents of the arrays \<open>B\<close> and \<open>C\<close> after each call of \<open>reverse\<close>, and
  every later element reads the contents left by the earlier ones.
\<close>

definition threeOpt_candidates :: "stop list \<Rightarrow> nat \<Rightarrow> nat \<Rightarrow> nat \<Rightarrow> stop list list" where
  "threeOpt_candidates seq i j k =
     (let A = slice 0 i seq;
          B0 = slice i j seq;
          C0 = slice j k seq;
          D = drop k seq;
          c0 = A @ B0 @ C0 @ D;
          B1 = rev B0;
          c1 = A @ B1 @ C0 @ D;
          C1 = rev C0;
          c2 = A @ B1 @ C1 @ D;
          c3 = A @ C1 @ B1 @ D;
          C2 = rev C1;
          c4 = A @ C2 @ B1 @ D;
          B2 = rev B1;
          C3 = rev C2;
          c5 = A @ B2 @ C3 @ D
      in [c0, c1, c2, c3, c4, c5])"

text \<open>The literal \<open>1e-9\<close>: the double nearest to it.\<close>

definition tolerance :: jsnum where
  "tolerance = fl (1 / 10 ^ 9)"

text \<open>
  The choice among the candidates of one triple. \<open>None\<close> stands for \<open>best === seq\<close>: no
  candidate was shorter than the sequence by more than \<open>1e-9\<close>.
\<close>

definition threeOpt_best :: "matrix \<Rightarrow> stop list \<Rightarrow> stop list list \<Rightarrow> stop list option" where
  "threeOpt_best distances seq candidates =
     fst (foldl (\<lambda>(best, bestD) cand.
                   let d = calcDist distances cand
                   in if jlt (jadd d tolerance) bestD then (Some cand, d)
                      else (best, bestD))
            (None, calcDist distances seq) candidates)"

text \<open>The triples \<open>(i, j, k)\<close> in the order of the three nested loops.\<close>

definition threeOpt_triples :: "nat \<Rightarrow> (nat \<times> nat \<times> nat) list" where
  "threeOpt_triples n =
     concat (map (\<lambda>i. concat (map (\<lambda>j. map (\<lambda>k. (i, j, k)) [j + 1..<n - 1]) [i + 1..<n - 2]))
       [1..<n - 3])"

fun threeOpt_scan :: "matrix \<Rightarrow> stop list \<Rightarrow> (nat \<times> nat \<times> nat) list \<Rightarrow> stop list option" where
  "threeOpt_scan distances seq [] = None"
| "threeOpt_scan distances seq ((i, j, k) # rest) =
     (case threeOpt_best distances seq (threeOpt_candidates seq i j k) of
        Some best \<Rightarrow> Some best
      | None \<Rightarrow> threeOpt_scan distances seq rest)"

text \<open>
  \<open>threeOptOnce\<close>: \<open>Some\<close> of the new sequence where it returns \<open>true\<close>, \<open>None\<close> where it
  returns \<open>false\<close> and leaves the sequence.
\<close>

definition threeOptOnce :: "matrix \<Rightarrow> stop list \<Rightarrow> stop list option" where
  "threeOptOnce distances seq = threeOpt_scan distances seq (threeOpt_triples (length seq))"

text \<open>
  The reconnections of the spec for one triple: identity, reverse \<open>B\<close>, reverse \<open>C\<close>,
  swap \<open>B\<close> and \<open>C\<close>, swap with \<open>B\<close> reversed, swap with \<open>C\<close> reversed, and the
  double-reverse.
\<close>

definition spec_reconnections :: "stop list \<Rightarrow> nat \<Rightarrow> nat \<Rightarrow> nat \<Rightarrow> stop list list" where
  "spec_reconnections seq i j k =
     (let A = slice 0 i seq; B = slice i j seq; C = slice j k seq; D = drop k seq
      in [A @ B @ C @ D, A @ rev B @ C @ D, A @ B @ rev C @ D, A @ C @ B @ D,
          A @ C @ rev B @ D, A @ rev C @ B @ D, A @ rev B @ rev C @ D])"

section \<open>Metaheuristics: neighbourhood moves, crossover and mutation\<close>


text \<open>
  \<open>JSON.parse (JSON.stringify (route))\<close>: a copy in which every number that is not
  finite has become \<open>null\<close>. The fields \<open>demand\<close>, \<open>totalCapacity\<close>, \<open>distance\<close> and
  \<open>duration\<close> are read through \<open>x || 0\<close> or written anew, and \<open>null\<close> is falsy as \<open>NaN\<close>
  is: there \<open>null\<close> is modelled by \<open>NaN\<close>.
\<close>

definition json_value :: "jsval \<Rightarrow> jsval" where
  "json_value v = (case v of Number (Num a) \<Rightarrow> Number (Num a) | _ \<Rightarrow> NotANumber)"

definition json_number :: "jsnum \<Rightarrow> jsnum" where
  "json_number x = (case x of Num a \<Rightarrow> Num a | _ \<Rightarrow> NaN)"

definition json_clone :: "route \<Rightarrow> route" where
  "json_clone route =
     route\<lparr>stops := map (\<lambda>s. s\<lparr>latitude := json_value (latitude s),
                                  longitude := json_value (longitude s),
                                  demand := json_number (demand s)\<rparr>) (stops route),
           distance := json_number (distance route),
           duration := json_number (duration route),
           totalCapacity := json_number (totalCapacity route)\<rparr>"






text \<open>
  \<open>createRandomSolution\<close>, for the order \<open>shuffledLocations\<close> that the random sort gave.
  A slot is a vehicle type with the locations placed on it and its used capacity; a
  location goes to the first slot with room, or nowhere.
\<close>

type_synonym slot = "vehicleType \<times> location list \<times> jsnum"

fun place :: "slot list \<Rightarrow> location \<Rightarrow> slot list" where
  "place [] location = []"
| "place ((v, locations, usedCapacity) # rest) location =
     (if jle (jadd usedCapacity (or_zero (loc_demand location))) (or_zero (capacity v))
      then (v, locations @ [location], jadd usedCapacity (or_zero (loc_demand location))) # rest
      else (v, locations, usedCapacity) # place rest location)"

definition stop_of_location :: "location \<Rightarrow> nat \<Rightarrow> stop" where
  "stop_of_location loc ord =
     \<lparr>locationId = loc_id loc, locationName = loc_name loc, latitude = loc_latitude loc,
      longitude = loc_longitude loc, demand = or_zero (loc_demand loc), order = ord\<rparr>"

definition slot_route :: "matrix \<Rightarrow> jsnum \<Rightarrow> location \<Rightarrow> slot \<Rightarrow> route" where
  "slot_route distances speedKmh depot sl =
     (case sl of (v, locations, usedCapacity) \<Rightarrow>
        let stops = [makeDepotStop depot 0]
                    @ map (\<lambda>(idx, loc). stop_of_location loc (idx + 1)) (enumerate 0 locations)
                    @ [makeDepotStop depot (length locations + 1)];
            d = sum_legs (leg_or_zero distances) stops (Num 0)
        in \<lparr>vehicle = Some (v_id v), vehicleName = v_name v, stops = stops, distance = d,
            duration = duration_of d speedKmh, totalCapacity = usedCapacity,
            capacityExceeded = None\<rparr>)"

definition createRandomSolution ::
  "vehicleType list \<Rightarrow> location \<Rightarrow> matrix \<Rightarrow> jsnum \<Rightarrow> location list \<Rightarrow> route list" where
  "createRandomSolution vehicles depot distances speedKmh shuffledLocations =
     (let vehicleSlots = foldl place (map (\<lambda>v. (v, [], Num 0)) vehicles) shuffledLocations
      in map (slot_route distances speedKmh depot)
           (filter (\<lambda>(v, locations, usedCapacity). length locations > 0) vehicleSlots))"

text \<open>
  \<open>crossover\<close>; \<open>rand i\<close> is the draw of \<open>Math.random\<close> at the index \<open>i\<close>, read only where
  both parents have a route at that index.
\<close>

definition crossover ::
  "route list \<Rightarrow> route list \<Rightarrow> (nat \<Rightarrow> real) \<Rightarrow> matrix \<Rightarrow> jsnum \<Rightarrow> route list" where
  "crossover parent1 parent2 rand distances speedKmh =
     (let maxRoutes = max (length parent1) (length parent2);
          child = map (\<lambda>i.
                    if i < length parent1 \<and> i < length parent2
                    then (if rand i < 1 / 2 then json_clone (parent1 ! i)
                          else json_clone (parent2 ! i))
                    else if i < length parent1 then json_clone (parent1 ! i)
                    else json_clone (parent2 ! i)) [0..<maxRoutes]
      in recomputeAllRouteMetrics distances speedKmh child)"


definition served :: "string \<Rightarrow> route list \<Rightarrow> string list" where
  "served depotId solution =
     filter (\<lambda>ident. ident \<noteq> depotId) (concat (map (\<lambda>r. map locationId (stops r)) solution))"

definition each_served_once :: "string \<Rightarrow> route list \<Rightarrow> bool" where
  "each_served_once depotId solution = distinct (served depotId solution)"

section \<open>Nearest Neighbor and the vehicle assignment\<close>

text \<open>
  The vehicle slots: \<open>count || 1\<close> copies of every vehicle type, in the order of the
  fleet. A slot of \<open>nearestNeighborAlgorithm\<close> carries the identifier, the name and the
  capacity \<open>v.capacity || 0\<close> of its type, and is modelled by the type itself.
\<close>

definition expand_slots :: "vehicleType list \<Rightarrow> vehicleType list" where
  "expand_slots vehicles =
     concat (map (\<lambda>v. replicate (nat (if count v = 0 then 1 else count v)) v) vehicles)"

text \<open>
  The loop that picks the nearest unused location within the remaining capacity, with
  its variables \<open>best\<close> and \<open>bestD\<close>.
\<close>

fun nn_pick ::
  "location list \<Rightarrow> string list \<Rightarrow> jsnum \<Rightarrow> location \<Rightarrow> location option \<times> jsnum \<Rightarrow>
   location option \<times> jsnum" where
  "nn_pick [] used remaining current acc = acc"
| "nn_pick (loc # rest) used remaining current (best, bestD) =
     (if loc_id loc \<in> set used then nn_pick rest used remaining current (best, bestD)
      else if jlt remaining (or_zero (loc_demand loc))
      then nn_pick rest used remaining current (best, bestD)
      else
        let d = calculateDistance (loc_latitude current) (loc_longitude current)
                  (loc_latitude loc) (loc_longitude loc)
        in if jlt d bestD then nn_pick rest used remaining current (Some loc, d)
           else nn_pick rest used remaining current (best, bestD))"

lemma nn_pick_sound:
  "nn_pick pending used remaining current (best, bestD) = (Some l, d) \<Longrightarrow>
   best = Some l \<or> (l \<in> set pending \<and> loc_id l \<notin> set used)"
  by (induction pending arbitrary: best bestD) (auto simp: Let_def split: if_splits)

text \<open>
  The loop \<open>while (true)\<close> that fills one route: the state is the set \<open>used\<close>, the
  remaining capacity, the current location, the stops so far and the next order number.
  Every round marks one more pending location as used, so the loop ends.
\<close>

function nn_fill ::
  "location list \<Rightarrow> string list \<Rightarrow> jsnum \<Rightarrow> location \<Rightarrow> stop list \<Rightarrow> nat \<Rightarrow>
   string list \<times> stop list \<times> nat" where
  "nn_fill pending used remaining current rtStops ord =
     (case fst (nn_pick pending used remaining current (None, PInf)) of
        None \<Rightarrow> (used, rtStops, ord)
      | Some best \<Rightarrow>
          nn_fill pending (used @ [loc_id best]) (jsub remaining (or_zero (loc_demand best))) best
            (rtStops @ [stop_of_location best ord]) (ord + 1))"
  by pat_completeness auto
termination
proof (relation "measure (\<lambda>(pending, used, remaining, current, rtStops, ord).
    length (filter (\<lambda>l. loc_id l \<notin> set used) pending))")
  show "wf (measure (\<lambda>(pending, used, remaining, current, rtStops, ord).
    length (filter (\<lambda>l. loc_id l \<notin> set used) pending)))"
    by simp
next
  fix pending :: "location list" and used :: "string list" and remaining :: jsnum
    and current :: location and rtStops :: "stop list" and ord :: nat and best :: location
  assume "fst (nn_pick pending used remaining current (None, PInf)) = Some best"
  then obtain d where "nn_pick pending used remaining current (None, PInf) = (Some best, d)"
    by (cases "nn_pick pending used remaining current (None, PInf)") auto
  from nn_pick_sound [OF this] have best: "best \<in> set pending" "loc_id best \<notin> set used"
    by auto
  have "filter (\<lambda>l. loc_id l \<notin> set (used @ [loc_id best])) pending
      = filter (\<lambda>l. loc_id l \<noteq> loc_id best) (filter (\<lambda>l. loc_id l \<notin> set used) pending)"
    by (induction pending) auto
  moreover have "length (filter (\<lambda>l. loc_id l \<noteq> loc_id best)
        (filter (\<lambda>l. loc_id l \<notin> set used) pending))
      < length (filter (\<lambda>l. loc_id l \<notin> set used) pending)"
    using best by (intro length_filter_less [of best]) auto
  ultimately have "length (filter (\<lambda>l. loc_id l \<notin> set (used @ [loc_id best])) pending)
      < length (filter (\<lambda>l. loc_id l \<notin> set used) pending)"
    by simp
  then show "((pending, used @ [loc_id best], jsub remaining (or_zero (loc_demand best)), best,
        rtStops @ [stop_of_location best ord], ord + 1),
       (pending, used, remaining, current, rtStops, ord))
      \<in> measure (\<lambda>(pending, used, remaining, current, rtStops, ord).
          length (filter (\<lambda>l. loc_id l \<notin> set used) pending))"
    by simp
qed

declare nn_fill.simps [simp del]

text \<open>
  The route that closes a slot's stops: the depot is appended, the distance is summed
  from the coordinates, and \<open>totalCapacity\<close> is the sum of the demands of all stops minus
  the demand of the depot.
\<close>

definition nn_close :: "location \<Rightarrow> vehicleType \<Rightarrow> stop list \<Rightarrow> nat \<Rightarrow> route" where
  "nn_close depot vs rtStops ord =
     (let closed = rtStops @ [makeDepotStop depot ord];
          totalDist = sum_legs stop_distance closed (Num 0)
      in \<lparr>vehicle = Some (v_id vs), vehicleName = v_name vs, stops = closed,
          distance = totalDist, duration = duration_of totalDist (Num 40),
          totalCapacity =
            jsub (foldl (\<lambda>s st. jadd s (or_zero (demand st))) (Num 0) closed)
              (or_zero (loc_demand depot)),
          capacityExceeded = None\<rparr>)"

text \<open>The loop over the slots, which stops early once every pending location is used.\<close>

fun nn_slots ::
  "location \<Rightarrow> location list \<Rightarrow> vehicleType list \<Rightarrow> route list \<times> string list \<Rightarrow>
   route list \<times> string list" where
  "nn_slots depot pending [] (routes, used) = (routes, used)"
| "nn_slots depot pending (vs # rest) (routes, used) =
     (case nn_fill pending used (or_zero (capacity vs)) depot [makeDepotStop depot 0] 1 of
        (used', rtStops, ord) \<Rightarrow>
          let routes' = (if length rtStops > 1 then routes @ [nn_close depot vs rtStops ord]
                         else routes)
          in if length used' = length pending then (routes', used')
             else nn_slots depot pending rest (routes', used'))"

text \<open>The second loop: a route of its own for every location still unused.\<close>

fun nn_leftover ::
  "location \<Rightarrow> vehicleType list \<Rightarrow> location list \<Rightarrow> route list \<times> string list \<Rightarrow> route list" where
  "nn_leftover depot vehicleSlots [] (routes, used) = routes"
| "nn_leftover depot vehicleSlots (loc # rest) (routes, used) =
     (if loc_id loc \<in> set used then nn_leftover depot vehicleSlots rest (routes, used)
      else
        case find (\<lambda>v. jle (or_zero (loc_demand loc)) (or_zero (capacity v))) vehicleSlots of
          None \<Rightarrow> nn_leftover depot vehicleSlots rest (routes, used)
        | Some vs \<Rightarrow>
            let d = jmul (calculateDistance (loc_latitude depot) (loc_longitude depot)
                            (loc_latitude loc) (loc_longitude loc)) (Num 2);
                r = \<lparr>vehicle = Some (v_id vs), vehicleName = v_name vs,
                     stops = [makeDepotStop depot 0, stop_of_location loc 1, makeDepotStop depot 2],
                     distance = d, duration = duration_of d (Num 40),
                     totalCapacity = or_zero (loc_demand loc), capacityExceeded = None\<rparr>
            in nn_leftover depot vehicleSlots rest (routes @ [r], used @ [loc_id loc]))"

definition nearestNeighborAlgorithm ::
  "vehicleType list \<Rightarrow> location list \<Rightarrow> location \<Rightarrow> route list" where
  "nearestNeighborAlgorithm vehicles locations depot =
     (let pending = filter (\<lambda>l. loc_id l \<noteq> loc_id depot) locations;
          vehicleSlots = expand_slots vehicles
      in nn_leftover depot vehicleSlots pending
           (nn_slots depot pending vehicleSlots ([], [])))"

text \<open>
  \<open>Array.prototype.sort\<close> with a comparator, which is a stable sort: an element goes
  before the first element that it does not compare greater than. (For a comparator that
  is not a consistent order, as when a difference is \<open>NaN\<close>, ECMAScript leaves the order to
  the implementation; the model is the stable insertion.)
\<close>

fun insert_by :: "('a \<Rightarrow> 'a \<Rightarrow> jsnum) \<Rightarrow> 'a \<Rightarrow> 'a list \<Rightarrow> 'a list" where
  "insert_by cmp x [] = [x]"
| "insert_by cmp x (y # ys) =
     (if jlt (Num 0) (cmp x y) then y # insert_by cmp x ys else x # y # ys)"

definition sort_by :: "('a \<Rightarrow> 'a \<Rightarrow> jsnum) \<Rightarrow> 'a list \<Rightarrow> 'a list" where
  "sort_by cmp xs = foldr (insert_by cmp) xs []"

text \<open>
  \<open>assignVehiclesToRoutes\<close>. A slot carries the identifier, name and capacity of its
  type, the flag \<open>used\<close> (here \<open>slot_used\<close>) and \<open>currentLoad\<close>. Routes are sorted by falling demand and slots
  by falling capacity; every route takes, among the unused slots that can carry it, the
  first one of least slack, or keeps the vehicle it came with.
\<close>

record vehicleSlot =
  slot_id :: string
  slot_name :: string
  slot_capacity :: jsnum
  slot_used :: bool
  currentLoad :: jsnum

definition assign_slots :: "vehicleType list \<Rightarrow> vehicleSlot list" where
  "assign_slots vehicles =
     map (\<lambda>v. \<lparr>slot_id = v_id v, slot_name = v_name v, slot_capacity = or_zero (capacity v),
               slot_used = False, currentLoad = Num 0\<rparr>) (expand_slots vehicles)"

definition slack :: "route \<Rightarrow> vehicleSlot \<Rightarrow> jsnum" where
  "slack route vs =
     jsub (slot_capacity vs) (jadd (currentLoad vs) (or_zero (totalCapacity route)))"

definition assign_route :: "vehicleSlot list \<times> route list \<Rightarrow> route \<Rightarrow> vehicleSlot list \<times> route list" where
  "assign_route st route =
     (case st of (vehicleSlots, assigned) \<Rightarrow>
        (case sort_by (\<lambda>(ia, a) (ib, b). jsub (slack route a) (slack route b))
                (filter (\<lambda>(idx, vs). \<not> slot_used vs \<and>
                                      jle (or_zero (totalCapacity route)) (slot_capacity vs))
                   (enumerate 0 vehicleSlots)) of
           [] \<Rightarrow> (vehicleSlots, assigned @ [route])
         | (idx, bestSlot) # _ \<Rightarrow>
             (vehicleSlots[idx := bestSlot\<lparr>slot_used := True,
                 currentLoad := jadd (currentLoad bestSlot) (or_zero (totalCapacity route))\<rparr>],
              assigned @ [route\<lparr>vehicle := Some (slot_id bestSlot),
                 vehicleName := slot_name bestSlot\<rparr>])))"

definition assignVehiclesToRoutes :: "route list \<Rightarrow> vehicleType list \<Rightarrow> route list" where
  "assignVehiclesToRoutes routes vehicles =
     snd (foldl assign_route
            (sort_by (\<lambda>a b. jsub (slot_capacity b) (slot_capacity a)) (assign_slots vehicles), [])
            (sort_by (\<lambda>a b. jsub (or_zero (totalCapacity b)) (or_zero (totalCapacity a))) routes))"

text \<open>
  The invariant of the claim for one route, against the fleet: a route with an assigned
  vehicle is within the capacity of that vehicle type or is flagged.
\<close>

definition capacity_respected :: "vehicleType list \<Rightarrow> route \<Rightarrow> bool" where
  "capacity_respected vehicles route =
     (case vehicle route of
        None \<Rightarrow> True
      | Some ident \<Rightarrow>
          (case find (\<lambda>v. v_id v = ident) vehicles of
             None \<Rightarrow> True
           | Some v \<Rightarrow>
               jle (totalCapacity route) (capacity v) \<or> capacityExceeded route = Some True))"

section \<open>Example data\<close>

text \<open>Concrete inputs on which the theorems below are evaluated.\<close>

definition mk_stop :: "string \<Rightarrow> real \<Rightarrow> nat \<Rightarrow> stop" where
  "mk_stop ident dem idx =
     \<lparr>locationId = ident, locationName = ident, latitude = Number (Num 0),
      longitude = Number (Num 0), demand = Num dem, order = idx\<rparr>"

definition mk_route :: "string option \<Rightarrow> stop list \<Rightarrow> real \<Rightarrow> route" where
  "mk_route v ss cap =
     \<lparr>vehicle = v, vehicleName = ''Unassigned'', stops = ss, distance = Num 0,
      duration = Num 0, totalCapacity = Num cap, capacityExceeded = None\<rparr>"

definition mk_result :: "string \<Rightarrow> real \<Rightarrow> real \<Rightarrow> string option \<Rightarrow> algorithmResult" where
  "mk_result key cov d err =
     \<lparr>algorithm = key, algorithmKey = key, resultRoutes = [], totalDistance = d,
      totalDuration = 0, coveragePercentage = cov, error = err\<rparr>"

definition mk_location :: "string \<Rightarrow> jsnum \<Rightarrow> jsnum \<Rightarrow> real \<Rightarrow> bool \<Rightarrow> location" where
  "mk_location ident lat lon dem dep =
     \<lparr>loc_id = ident, loc_name = ident, loc_latitude = Number lat, loc_longitude = Number lon,
      loc_demand = Num dem, isDepot = dep\<rparr>"

definition mk_vehicle :: "string \<Rightarrow> real \<Rightarrow> int \<Rightarrow> vehicleType" where
  "mk_vehicle ident cap n = \<lparr>v_id = ident, v_name = ident, capacity = Num cap, count = n\<rparr>"

definition mk_request :: "string list \<Rightarrow> string list \<Rightarrow> request" where
  "mk_request vids lids =
     \<lparr>name = Some ''plan'', vehicleIds = Some vids, locationIds = Some lids,
      algorithmName = ''clarke-wright'', runComparison = False\<rparr>"

text \<open>A matrix over the identifiers \<open>d\<close>, \<open>a\<close> and \<open>b\<close>: a row is a list of pairs.\<close>

definition mk_matrix :: "(string \<times> (string \<times> real) list) list \<Rightarrow> matrix" where
  "mk_matrix rows a = map_option (\<lambda>row b. map_option Num (map_of row b)) (map_of rows a)"

definition ex_matrix :: matrix where
  "ex_matrix = mk_matrix
     [(''d'', [(''d'', 0), (''a'', 3), (''b'', 4)]),
      (''a'', [(''d'', 3), (''a'', 0), (''b'', 5)]),
      (''b'', [(''d'', 4), (''a'', 5), (''b'', 0)])]"

text \<open>
  Five places on a grid, \<open>d = (5, 3)\<close>, \<open>a = (0, 3)\<close>, \<open>b = (0, 0)\<close>, \<open>c = (3, 6)\<close> and
  \<open>x = (5, 2)\<close>, with their city-block distances, and the route \<open>d, a, b, c, x, d\<close>.
\<close>

definition grid_matrix :: matrix where
  "grid_matrix = mk_matrix
     [(''d'', [(''d'', 0), (''a'', 5), (''b'', 8), (''c'', 5), (''x'', 1)]),
      (''a'', [(''d'', 5), (''a'', 0), (''b'', 3), (''c'', 6), (''x'', 6)]),
      (''b'', [(''d'', 8), (''a'', 3), (''b'', 0), (''c'', 9), (''x'', 7)]),
      (''c'', [(''d'', 5), (''a'', 6), (''b'', 9), (''c'', 0), (''x'', 6)]),
      (''x'', [(''d'', 1), (''a'', 6), (''b'', 7), (''c'', 6), (''x'', 0)])]"

definition grid_route :: "stop list" where
  "grid_route = [mk_stop ''d'' 0 0, mk_stop ''a'' 1 1, mk_stop ''b'' 1 2, mk_stop ''c'' 1 3,
                 mk_stop ''x'' 1 4, mk_stop ''d'' 0 5]"

section \<open>Properties of the rounding\<close>

lemma round_even_of_int: "round_even (of_int n) = n"
  by (simp add: round_even_def)

lemma round_even_error: "\<bar>of_int (round_even q) - q\<bar> \<le> 1 / 2"
  unfolding round_even_def Let_def by (auto; linarith)

lemma round_even_nonneg: "0 \<le> q \<Longrightarrow> 0 \<le> round_even q"
  unfolding round_even_def Let_def by (auto; linarith)

lemma round_even_nonpos: "q \<le> 0 \<Longrightarrow> round_even q \<le> 0"
  unfolding round_even_def Let_def by (auto; linarith)

lemma ulp_pos: "0 < ulp x"
  by (simp add: ulp_def)

lemma powr_floor_log_le:
  assumes "x \<noteq> 0"
  shows "2 powr of_int \<lfloor>log 2 \<bar>x\<bar>\<rfloor> \<le> \<bar>x\<bar>"
proof -
  from assms have "0 < \<bar>x\<bar>" by simp
  from floor_log_eq_powr_iff [OF this, of 2 "\<lfloor>log 2 \<bar>x\<bar>\<rfloor>"] show ?thesis
    by simp
qed

text \<open>
  Half a unit in the last place is at most the fraction \<open>2^-53\<close> of the number, or
  \<open>2^-1075\<close> for a subnormal.
\<close>

lemma half_ulp_le:
  assumes "x \<noteq> 0"
  shows "ulp x / 2 \<le> \<bar>x\<bar> / 2 ^ 53 + 1 / 2 ^ 1075"
proof (cases "- 1022 \<le> \<lfloor>log 2 \<bar>x\<bar>\<rfloor>")
  case True
  then have b: "binade x = \<lfloor>log 2 \<bar>x\<bar>\<rfloor>"
    by (simp add: binade_def)
  have "ulp x / 2 = 2 powr (of_int \<lfloor>log 2 \<bar>x\<bar>\<rfloor> - 53)"
    unfolding ulp_def b by (simp add: powr_diff)
  also have "\<dots> = 2 powr of_int \<lfloor>log 2 \<bar>x\<bar>\<rfloor> / 2 ^ 53"
    by (simp add: powr_diff)
  also have "\<dots> \<le> \<bar>x\<bar> / 2 ^ 53"
    using powr_floor_log_le [OF assms] by (simp add: divide_right_mono)
  finally show ?thesis
    by (rule add_increasing2 [rotated]) simp
next
  case False
  then have b: "binade x = - 1022"
    by (simp add: binade_def)
  have "ulp x / 2 = 2 powr (- 1075)"
    unfolding ulp_def b by (simp add: powr_diff powr_minus)
  also have "\<dots> = 1 / 2 ^ 1075"
    by (simp add: powr_minus inverse_eq_divide)
  finally show ?thesis
    by simp
qed

text \<open>
  The standard model of floating-point arithmetic: below the overflow threshold the
  rounded value is finite, keeps the sign, and is off by a relative error of at most
  \<open>2^-53\<close> (an absolute error of at most \<open>2^-1075\<close> for a subnormal).
\<close>

lemma fl_error:
  assumes "\<bar>x\<bar> \<le> 2 ^ 1023"
  shows "\<exists>y. fl x = Num y \<and> \<bar>y - x\<bar> \<le> \<bar>x\<bar> / 2 ^ 53 + 1 / 2 ^ 1075 \<and>
           (0 \<le> x \<longrightarrow> 0 \<le> y) \<and> (x \<le> 0 \<longrightarrow> y \<le> 0)"
proof (cases "x = 0")
  case True
  then show ?thesis by (simp add: fl_def)
next
  case False
  define u where "u = ulp x"
  define n where "n = round_even (x / u)"
  define y where "y = of_int n * u"
  have u: "0 < u" by (simp add: u_def ulp_pos)
  have "\<bar>y - x\<bar> = u * \<bar>of_int n - x / u\<bar>"
  proof -
    have "y - x = u * (of_int n - x / u)"
      using u by (simp add: y_def field_simps)
    then show ?thesis
      using u by (simp add: abs_mult)
  qed
  also have "\<dots> \<le> u * (1 / 2)"
    using round_even_error [of "x / u"] u unfolding n_def by (intro mult_left_mono) simp_all
  also have "\<dots> \<le> \<bar>x\<bar> / 2 ^ 53 + 1 / 2 ^ 1075"
    using half_ulp_le [OF False] by (simp add: u_def)
  finally have err: "\<bar>y - x\<bar> \<le> \<bar>x\<bar> / 2 ^ 53 + 1 / 2 ^ 1075" .
  have small: "(1::real) / 2 ^ 1075 \<le> 1"
    by simp
  have "\<bar>x\<bar> / 2 ^ 53 \<le> 2 ^ 1023 / (2 ^ 53 :: real)"
    using assms by (simp add: divide_right_mono)
  also have "\<dots> = (2 ^ 970 :: real)"
    by simp
  finally have "\<bar>y\<bar> \<le> 2 ^ 1023 + 2 ^ 970 + (1::real)"
    using err assms small by linarith
  also have "\<dots> < (2 ^ 1024 :: real)"
    by simp
  finally have fin: "\<not> 2 ^ 1024 \<le> \<bar>y\<bar>"
    by simp
  have val: "fl x = Num y"
    using False fin by (simp add: fl_def Let_def y_def n_def u_def)
  have pos: "0 \<le> x \<longrightarrow> 0 \<le> y"
    using round_even_nonneg [of "x / u"] u by (simp add: y_def n_def)
  have neg: "x \<le> 0 \<longrightarrow> y \<le> 0"
    using round_even_nonpos [of "x / u"] u
    by (auto simp add: y_def n_def mult_le_0_iff divide_le_0_iff)
  from val err pos neg show ?thesis
    by blast
qed

text \<open>The same as a bound: a real within \<open>B\<close> rounds to a double within any \<open>B'\<close> a little above.\<close>

lemma fl_bound:
  assumes "\<bar>x\<bar> \<le> B" and "B \<le> 2 ^ 1000" and "(B + 1) / 2 ^ 53 \<le> B' - B"
  shows "\<exists>y. fl x = Num y \<and> \<bar>y\<bar> \<le> B' \<and> (0 \<le> x \<longrightarrow> 0 \<le> y) \<and> (x \<le> 0 \<longrightarrow> y \<le> 0)"
proof -
  have "(2::real) ^ 1000 \<le> 2 ^ 1023"
    by simp
  with assms have "\<bar>x\<bar> \<le> 2 ^ 1023"
    by linarith
  from fl_error [OF this] obtain y where y: "fl x = Num y"
    "\<bar>y - x\<bar> \<le> \<bar>x\<bar> / 2 ^ 53 + 1 / 2 ^ 1075" "0 \<le> x \<longrightarrow> 0 \<le> y" "x \<le> 0 \<longrightarrow> y \<le> 0"
    by blast
  have "\<bar>x\<bar> / 2 ^ 53 \<le> B / 2 ^ 53"
    using assms(1) by (simp add: divide_right_mono)
  moreover have "(1::real) / 2 ^ 1075 \<le> 1 / 2 ^ 53"
    by simp
  moreover have "(B + 1) / 2 ^ 53 = B / 2 ^ 53 + 1 / 2 ^ 53"
    by (simp add: add_divide_distrib)
  ultimately have "\<bar>y\<bar> \<le> B'"
    using y(2) assms(1,3) by linarith
  with y show ?thesis
    by blast
qed

lemma fl_near:
  assumes "\<bar>x\<bar> \<le> 1000000"
  shows "\<exists>y. fl x = Num y \<and> \<bar>y - x\<bar> \<le> 1 / 1000000000 \<and> (0 \<le> x \<longrightarrow> 0 \<le> y)"
proof -
  have "(1000000::real) \<le> 2 ^ 1023"
    by simp
  with assms have "\<bar>x\<bar> \<le> 2 ^ 1023"
    by (rule order_trans)
  from fl_error [OF this] obtain y where y: "fl x = Num y"
    "\<bar>y - x\<bar> \<le> \<bar>x\<bar> / 2 ^ 53 + 1 / 2 ^ 1075" "0 \<le> x \<longrightarrow> 0 \<le> y"
    by blast
  have "\<bar>x\<bar> / 2 ^ 53 \<le> 1000000 / 2 ^ 53"
    using assms by (simp add: divide_right_mono)
  also have "\<dots> \<le> 1 / 2000000000"
    by simp
  finally have a: "\<bar>x\<bar> / 2 ^ 53 \<le> 1 / 2000000000" .
  have b: "(1::real) / 2 ^ 1075 \<le> 1 / 2000000000"
    by simp
  have "\<bar>x\<bar> / 2 ^ 53 + 1 / 2 ^ 1075 \<le> 1 / 2000000000 + 1 / 2000000000"
    using a b by (rule add_mono)
  also have "\<dots> = 1 / 1000000000"
    by simp
  finally have "\<bar>y - x\<bar> \<le> 1 / 1000000000"
    using y(2) by (rule order_trans [rotated])
  with y show ?thesis
    by blast
qed

lemma fl_near_nonneg:
  assumes "0 \<le> x" and "x \<le> B" and "B \<le> 1000000"
  shows "\<exists>y. fl x = Num y \<and> 0 \<le> y \<and> y \<le> B + 1 / 1000000000"
proof -
  from assms have "\<bar>x\<bar> \<le> 1000000"
    by simp
  from fl_near [OF this] assms(1) obtain y where
    y: "fl x = Num y" "\<bar>y - x\<bar> \<le> 1 / 1000000000" "0 \<le> y"
    by blast
  from y(2) assms(2) have "y \<le> B + 1 / 1000000000"
    by linarith
  with y show ?thesis
    by blast
qed

lemma fl_unit_range:
  assumes "0 \<le> x" and "x \<le> 2"
  shows "\<exists>q. fl x = Num q \<and> 0 \<le> q \<and> q \<le> 2 + 1 / 1000000000"
  using fl_near_nonneg [OF assms] by simp

lemma fl_nonneg_cases:
  assumes "0 \<le> x"
  shows "fl x = PInf \<or> (\<exists>y. fl x = Num y \<and> 0 \<le> y)"
proof (cases "x = 0")
  case True
  then show ?thesis by (simp add: fl_def)
next
  case False
  have "0 \<le> real_of_int (round_even (x / ulp x)) * ulp x"
    using round_even_nonneg [of "x / ulp x"] ulp_pos [of x] assms by simp
  with False assms show ?thesis
    by (auto simp: fl_def Let_def)
qed

text \<open>An integer of magnitude at most \<open>2^53\<close> is a double.\<close>

lemma fl_of_int:
  assumes "\<bar>n\<bar> \<le> 2 ^ 53"
  shows "fl (of_int n) = Num (of_int n)"
proof (cases "n = 0")
  case True
  then show ?thesis by (simp add: fl_def)
next
  case False
  define x :: real where "x = of_int n"
  define e where "e = \<lfloor>log 2 \<bar>x\<bar>\<rfloor>"
  have x1: "1 \<le> \<bar>x\<bar>"
    using False by (simp add: x_def)
  have x2: "\<bar>x\<bar> \<le> 2 ^ 53"
    using assms unfolding x_def by (metis of_int_abs of_int_le_iff of_int_numeral of_int_power)
  have xpos: "0 < \<bar>x\<bar>"
    using x1 by linarith
  have lo: "2 powr of_int e \<le> \<bar>x\<bar>"
    using floor_log_eq_powr_iff [OF xpos, of 2 e] by (simp add: e_def)
  have e0: "0 \<le> e"
    unfolding e_def using x1 by (simp add: zero_le_log_cancel_iff)
  have e53: "e \<le> 53"
  proof -
    have "\<not> 53 < real_of_int e"
    proof
      assume "53 < real_of_int e"
      then have "2 powr (53::real) < 2 powr of_int e"
        by (rule powr_less_mono) simp
      with lo x2 show False by simp
    qed
    then show ?thesis by linarith
  qed
  have b: "binade x = e"
    using e0 by (simp add: binade_def e_def)
  have "\<exists>m. x / ulp x = of_int m"
  proof (cases "e \<le> 52")
    case True
    have "1 / ulp x = 2 powr of_int (52 - e)"
      unfolding ulp_def b using powr_minus [of "2::real" "of_int (e - 52)"]
      by (simp add: inverse_eq_divide)
    also have "\<dots> = 2 ^ nat (52 - e)"
      using True powr_realpow [of "2::real" "nat (52 - e)"] by simp
    finally have "x / ulp x = of_int (n * 2 ^ nat (52 - e))"
      by (simp add: x_def divide_inverse)
    then show ?thesis ..
  next
    case False
    with e53 have e: "e = 53" by simp
    have "(2::real) powr 53 = 2 ^ 53"
      by simp
    with lo x2 have ax: "\<bar>x\<bar> = 2 ^ 53"
      unfolding e by simp
    have u: "ulp x = 2"
      unfolding ulp_def b e by simp
    have "\<bar>n\<bar> = 2 ^ 53"
      using ax unfolding x_def by (metis of_int_abs of_int_eq_iff of_int_numeral of_int_power)
    then have "n = 2 ^ 53 \<or> n = - (2 ^ 53)"
      by linarith
    then have "n = 2 * (n div 2)"
      by auto
    then have "x = 2 * of_int (n div 2)"
      unfolding x_def by (metis of_int_mult of_int_numeral)
    with u have "x / ulp x = of_int (n div 2)"
      by simp
    then show ?thesis ..
  qed
  then obtain m where m: "x / ulp x = of_int m" ..
  have "of_int (round_even (x / ulp x)) * ulp x = x"
    unfolding m round_even_of_int using m ulp_pos [of x] by (simp add: field_simps)
  moreover have "\<not> 2 ^ 1024 \<le> \<bar>x\<bar>"
  proof -
    have "(2::real) ^ 53 < 2 ^ 1024" by simp
    with x2 show ?thesis by linarith
  qed
  moreover have "x \<noteq> 0"
    using x1 by auto
  ultimately show ?thesis
    unfolding x_def [symmetric] by (simp add: fl_def Let_def)
qed

lemma fl_numeral: "numeral k \<le> (2 ^ 53 :: int) \<Longrightarrow> fl (numeral k) = Num (numeral k)"
  using fl_of_int [of "numeral k"] by simp

lemma fl_neg_numeral: "numeral k \<le> (2 ^ 53 :: int) \<Longrightarrow> fl (- numeral k) = Num (- numeral k)"
  using fl_of_int [of "- numeral k"] by simp

lemma fl_0: "fl 0 = Num 0"
  by (simp add: fl_def)

lemma fl_1: "fl 1 = Num 1"
  using fl_of_int [of 1] by simp

lemmas fl_exact = fl_numeral fl_neg_numeral fl_0 fl_1

text \<open>
  Above \<open>2^53\<close> the doubles are the even integers: \<open>2^53 + 1\<close> is a tie and goes to the
  even significand, \<open>2^53\<close>.
\<close>

lemma fl_tie: "fl (2 ^ 53 + 1) = Num (2 ^ 53)"
proof -
  define x :: real where "x = 2 ^ 53 + 1"
  have xpos: "0 < \<bar>x\<bar>" by (simp add: x_def)
  have "\<lfloor>log 2 \<bar>x\<bar>\<rfloor> = 53"
    unfolding floor_log_eq_powr_iff [OF xpos, of 2 53, simplified] by (simp add: x_def)
  then have u: "ulp x = 2"
    by (simp add: ulp_def binade_def)
  have q: "x / 2 = 2 ^ 52 + 1 / 2"
    by (simp add: x_def)
  have f: "\<lfloor>x / 2\<rfloor> = 2 ^ 52"
    unfolding q by (simp add: floor_eq_iff)
  have "round_even (x / 2) = 2 ^ 52"
    unfolding round_even_def Let_def f by (simp add: q)
  then show ?thesis
    unfolding x_def [symmetric] by (simp add: fl_def Let_def u) (simp add: x_def)
qed

lemma math_PI_bounds: "\<exists>p. math_PI = Num p \<and> 0 < p \<and> p \<le> 5"
proof -
  have "\<bar>pi\<bar> \<le> 2 ^ 1023"
  proof -
    have "(4::real) \<le> 2 ^ 1023" by simp
    with pi_less_4 show ?thesis by simp
  qed
  from fl_error [OF this] obtain p where p: "fl pi = Num p"
    "\<bar>p - pi\<bar> \<le> \<bar>pi\<bar> / 2 ^ 53 + 1 / 2 ^ 1075"
    by blast
  have a: "\<bar>pi\<bar> / 2 ^ 53 \<le> 4 / 2 ^ 53"
    using pi_less_4 by (simp add: divide_right_mono)
  have b: "(4::real) / 2 ^ 53 \<le> 1 / 2" "(1::real) / 2 ^ 1075 \<le> 1 / 2"
    by simp_all
  from p(2) a b pi_ge_two pi_less_4 have "0 < p \<and> p \<le> 5"
    by linarith
  with p(1) show ?thesis
    by (simp add: math_PI_def)
qed

section \<open>Properties of the solution key\<close>

text \<open>
  C10. The Tabu Search solution key does not depend on the order of the routes: two
  solutions that hold the same routes, in any order, have the same key.
\<close>

theorem generateSolutionKey_permutation:
  assumes "mset solution' = mset solution"
  shows "generateSolutionKey solution' = generateSolutionKey solution"
proof -
  let ?k = "\<lambda>route. join ''-'' (map locationId (stops route))"
  have "mset (map ?k solution') = mset (map ?k solution)"
    using assms by (metis mset_map)
  then have "sort (map ?k solution') = sort (map ?k solution)"
    by (intro properties_for_sort) simp_all
  then show ?thesis
    by (simp add: generateSolutionKey_def)
qed

theorem generateSolutionKey_permutation_witness:
  "mset [mk_route None [mk_stop ''d'' 0 0, mk_stop ''a'' 3 1, mk_stop ''d'' 0 2] 3,
         mk_route None [mk_stop ''d'' 0 0, mk_stop ''b'' 4 1, mk_stop ''d'' 0 2] 4]
   = mset [mk_route None [mk_stop ''d'' 0 0, mk_stop ''b'' 4 1, mk_stop ''d'' 0 2] 4,
           mk_route None [mk_stop ''d'' 0 0, mk_stop ''a'' 3 1, mk_stop ''d'' 0 2] 3]
   \<and> generateSolutionKey
        [mk_route None [mk_stop ''d'' 0 0, mk_stop ''a'' 3 1, mk_stop ''d'' 0 2] 3,
         mk_route None [mk_stop ''d'' 0 0, mk_stop ''b'' 4 1, mk_stop ''d'' 0 2] 4]
     = ''d-a-d|d-b-d''
   \<and> generateSolutionKey
        [mk_route None [mk_stop ''d'' 0 0, mk_stop ''b'' 4 1, mk_stop ''d'' 0 2] 4,
         mk_route None [mk_stop ''d'' 0 0, mk_stop ''a'' 3 1, mk_stop ''d'' 0 2] 3]
     = ''d-a-d|d-b-d''"
proof -
  let ?ra = "mk_route None [mk_stop ''d'' 0 0, mk_stop ''a'' 3 1, mk_stop ''d'' 0 2] 3"
  let ?rb = "mk_route None [mk_stop ''d'' 0 0, mk_stop ''b'' 4 1, mk_stop ''d'' 0 2] 4"
  have perm: "mset [?ra, ?rb] = mset [?rb, ?ra]"
    by (simp add: add.commute)
  have key: "generateSolutionKey [?rb, ?ra] = ''d-a-d|d-b-d''"
    by (simp add: generateSolutionKey_def mk_route_def mk_stop_def)
  from generateSolutionKey_permutation [OF perm] key perm show ?thesis
    by simp
qed

section \<open>Properties of the winner selection\<close>

lemma jlt_trans: "jlt a b \<Longrightarrow> jlt b c \<Longrightarrow> jlt a c"
  by (cases a; cases b; cases c) auto

lemma jlt_irrefl: "\<not> jlt a a"
  by (cases a) auto

lemma math_max_nonempty:
  "xs \<noteq> [] \<Longrightarrow> \<exists>m. math_max xs = Num m \<and> m \<in> set xs \<and> (\<forall>x\<in>set xs. x \<le> m)"
proof (induction xs)
  case Nil
  then show ?case by simp
next
  case (Cons x xs)
  show ?case
  proof (cases "xs = []")
    case True
    then show ?thesis by simp
  next
    case False
    with Cons.IH obtain m where m: "math_max xs = Num m" "m \<in> set xs" "\<forall>y\<in>set xs. y \<le> m"
      by blast
    then show ?thesis
      by (auto simp: max_def)
  qed
qed

lemma find_append_if:
  "find P (xs @ ys) = (case find P xs of None \<Rightarrow> find P ys | Some x \<Rightarrow> Some x)"
  by (induction xs) auto

lemma find_filter_conj: "find P (filter Q xs) = find (\<lambda>x. Q x \<and> P x) xs"
  by (induction xs) auto

text \<open>
  The \<open>reduce\<close> step keeps the current best unless the next element is strictly smaller:
  the result is a least element, and the first one with its key.
\<close>

lemma foldl_select_min:
  fixes k :: "'a \<Rightarrow> jsnum"
  defines "f \<equiv> (\<lambda>best current. if jlt (k current) (k best) then current else best)"
  shows "foldl f b xs \<in> set (b # xs) \<and>
         (\<forall>r\<in>set (b # xs). \<not> jlt (k r) (k (foldl f b xs))) \<and>
         find (\<lambda>r. k r = k (foldl f b xs)) (b # xs) = Some (foldl f b xs)"
proof (induction xs rule: rev_induct)
  case Nil
  then show ?case by (simp add: jlt_irrefl)
next
  case (snoc x xs)
  let ?w = "foldl f b xs"
  from snoc have mem: "?w \<in> set (b # xs)"
    and least: "\<forall>r\<in>set (b # xs). \<not> jlt (k r) (k ?w)"
    and first: "find (\<lambda>r. k r = k ?w) (b # xs) = Some ?w"
    by blast+
  show ?case
  proof (cases "jlt (k x) (k ?w)")
    case True
    then have w: "foldl f b (xs @ [x]) = x" by (simp add: f_def)
    have a: "\<forall>r\<in>set (b # xs). \<not> jlt (k r) (k x)"
      using least True jlt_trans by blast
    have b: "\<forall>r\<in>set (b # xs). k r \<noteq> k x"
      using least True by metis
    then have "find (\<lambda>r. k r = k x) (b # xs) = None"
      unfolding find_None_iff by blast
    then have "find (\<lambda>r. k r = k x) ((b # xs) @ [x]) = Some x"
      unfolding find_append_if by simp
    with a show ?thesis unfolding w by (simp add: jlt_irrefl)
  next
    case False
    then have w: "foldl f b (xs @ [x]) = ?w" by (simp add: f_def)
    have "find (\<lambda>r. k r = k ?w) ((b # xs) @ [x]) = Some ?w"
      unfolding find_append_if using first by simp
    with mem least False show ?thesis unfolding w by auto
  qed
qed

lemma bestResult_valid:
  assumes ne: "filter no_error rs \<noteq> []"
  shows "\<exists>w. bestResult rs = Some w \<and> w \<in> set (filter no_error rs) \<and>
     (\<forall>r\<in>set (filter no_error rs). coveragePercentage r \<le> coveragePercentage w) \<and>
     (\<forall>r\<in>set (filter no_error rs). coveragePercentage r = coveragePercentage w \<longrightarrow>
        \<not> jlt (distance_or_infinity r) (distance_or_infinity w)) \<and>
     find (\<lambda>r. coveragePercentage r = coveragePercentage w \<and>
                distance_or_infinity r = distance_or_infinity w) (filter no_error rs) = Some w"
proof -
  let ?valid = "filter no_error rs"
  let ?k = distance_or_infinity
  from ne have "map coveragePercentage ?valid \<noteq> []" by simp
  from math_max_nonempty [OF this] obtain m where
    m: "math_max (map coveragePercentage ?valid) = Num m"
    and m_in: "m \<in> set (map coveragePercentage ?valid)"
    and m_max: "\<forall>x\<in>set (map coveragePercentage ?valid). x \<le> m"
    by blast
  let ?mcr = "filter (\<lambda>r. coveragePercentage r = m) ?valid"
  from m_in have mcr_ne: "?mcr \<noteq> []"
    by (auto simp: filter_empty_conv)
  then obtain b xs where mcr: "?mcr = b # xs"
    by (cases ?mcr) auto
  let ?f = "\<lambda>best current. if jlt (?k current) (?k best) then current else best"
  let ?w = "foldl ?f b xs"
  have sel: "bestResult rs = Some ?w"
  proof (cases xs)
    case Nil
    with mcr m ne show ?thesis by (simp add: bestResult_def Let_def)
  next
    case (Cons y ys)
    with mcr m ne show ?thesis by (simp add: bestResult_def Let_def)
  qed
  from foldl_select_min [of ?k b xs]
  have w_in: "?w \<in> set ?mcr"
    and w_least: "\<forall>r\<in>set ?mcr. \<not> jlt (?k r) (?k ?w)"
    and w_first: "find (\<lambda>r. ?k r = ?k ?w) ?mcr = Some ?w"
    unfolding mcr by blast+
  from w_in have cov: "coveragePercentage ?w = m" and w_valid: "?w \<in> set ?valid"
    by auto
  have "find (\<lambda>r. coveragePercentage r = m \<and> ?k r = ?k ?w) ?valid = Some ?w"
    using w_first unfolding find_filter_conj .
  with sel w_valid m_max w_least cov show ?thesis
    by auto
qed

lemma bestResult_none_valid:
  "filter no_error rs = [] \<Longrightarrow> bestResult rs = (case rs of [] \<Rightarrow> None | r # _ \<Rightarrow> Some r)"
  by (simp add: bestResult_def)

text \<open>
  C1, as the code has it. Among the results whose \<open>error\<close> is absent or empty, the winner
  has the maximum coverage percentage; among those of maximum coverage it has the least
  total distance, where a total distance of \<open>0\<close> counts as \<open>Infinity\<close>
  (\<open>r.totalDistance || Infinity\<close>); among those tied on both it is the first in insertion
  order. If no such result exists, the first result of the list is selected.
\<close>

theorem bestResult_selection:
  "(filter no_error rs \<noteq> [] \<longrightarrow>
      (\<exists>w. bestResult rs = Some w \<and> w \<in> set (filter no_error rs) \<and>
         (\<forall>r\<in>set (filter no_error rs). coveragePercentage r \<le> coveragePercentage w) \<and>
         (\<forall>r\<in>set (filter no_error rs). coveragePercentage r = coveragePercentage w \<longrightarrow>
            \<not> jlt (distance_or_infinity r) (distance_or_infinity w)) \<and>
         find (\<lambda>r. coveragePercentage r = coveragePercentage w \<and>
                    distance_or_infinity r = distance_or_infinity w) (filter no_error rs)
           = Some w)) \<and>
   (filter no_error rs = [] \<longrightarrow>
      bestResult rs = (case rs of [] \<Rightarrow> None | r # _ \<Rightarrow> Some r))"
  using bestResult_valid bestResult_none_valid by blast

text \<open>
  The spec's example: coverages 60, 80, 80 and distances 50, 100, 90 (and a failed
  result, which is passed over); the winner is the result with 80 and 90.
\<close>

theorem bestResult_selection_witness:
  "filter no_error
     [mk_result ''genetic'' 0 0 (Some ''failed''), mk_result ''clarke-wright'' 60 50 None,
      mk_result ''nearest-neighbor'' 80 100 None, mk_result ''tabu-search'' 80 90 None] \<noteq> []
   \<and> bestResult
     [mk_result ''genetic'' 0 0 (Some ''failed''), mk_result ''clarke-wright'' 60 50 None,
      mk_result ''nearest-neighbor'' 80 100 None, mk_result ''tabu-search'' 80 90 None]
     = Some (mk_result ''tabu-search'' 80 90 None)
   \<and> filter no_error [mk_result ''genetic'' 0 0 (Some ''failed'')] = []
   \<and> bestResult [mk_result ''genetic'' 0 0 (Some ''failed'')]
     = Some (mk_result ''genetic'' 0 0 (Some ''failed''))"
  using bestResult_selection
     [of "[mk_result ''genetic'' 0 0 (Some ''failed''), mk_result ''clarke-wright'' 60 50 None,
      mk_result ''nearest-neighbor'' 80 100 None, mk_result ''tabu-search'' 80 90 None]"]
    bestResult_selection [of "[mk_result ''genetic'' 0 0 (Some ''failed'')]"]
  by (simp add: bestResult_def mk_result_def no_error_def distance_or_infinity_def)

text \<open>
  The claim as stated fails where a total distance is \<open>0\<close>: of two error-free results
  with the same coverage and total distances \<open>0\<close> and \<open>5\<close>, the one with \<open>5\<close> is selected.
\<close>

theorem bestResult_zero_distance_counterexample:
  "no_error (mk_result ''clarke-wright'' 100 0 None) \<and>
   no_error (mk_result ''nearest-neighbor'' 100 5 None) \<and>
   coveragePercentage (mk_result ''clarke-wright'' 100 0 None)
     = coveragePercentage (mk_result ''nearest-neighbor'' 100 5 None) \<and>
   totalDistance (mk_result ''clarke-wright'' 100 0 None)
     < totalDistance (mk_result ''nearest-neighbor'' 100 5 None) \<and>
   bestResult [mk_result ''clarke-wright'' 100 0 None, mk_result ''nearest-neighbor'' 100 5 None]
     = Some (mk_result ''nearest-neighbor'' 100 5 None)"
  by (simp add: bestResult_def mk_result_def no_error_def distance_or_infinity_def)

section \<open>Properties of the request validation\<close>

lemma validate_rejects_iff:
  "(\<exists>msg. validate req vehicles locations = Inl (BadRequest msg)) \<longleftrightarrow>
     (name req = None \<or> name req = Some [] \<or> trim (the (name req)) = [] \<or>
      vehicleIds req = None \<or> vehicleIds req = Some [] \<or>
      locationIds req = None \<or> locationIds req = Some [] \<or>
      length (the (locationIds req)) > 100 \<or> length (the (vehicleIds req)) > 20 \<or>
      vehicles = [] \<or> locations = [] \<or> (\<forall>l\<in>set locations. \<not> isDepot l))"
  by (auto simp: validate_def find_None_iff find_Some_iff split: option.splits)

text \<open>
  C8, as the code has it. A request is answered with a 400 response, and no algorithm
  runs, exactly when its name is missing or blank, a list of identifiers is not an array
  or empty, there are more than 100 location identifiers or more than 20 vehicle
  identifiers, the database finds no vehicle or no location for them, or no location is
  marked as depot. The coordinates are not inspected.
\<close>

theorem createOptimization_rejects_iff:
  "(\<exists>msg. createOptimization req vehicles locations run = Inl (BadRequest msg)) \<longleftrightarrow>
     (name req = None \<or> name req = Some [] \<or> trim (the (name req)) = [] \<or>
      vehicleIds req = None \<or> vehicleIds req = Some [] \<or>
      locationIds req = None \<or> locationIds req = Some [] \<or>
      length (the (locationIds req)) > 100 \<or> length (the (vehicleIds req)) > 20 \<or>
      vehicles = [] \<or> locations = [] \<or> (\<forall>l\<in>set locations. \<not> isDepot l))"
proof -
  have "(\<exists>msg. createOptimization req vehicles locations run = Inl (BadRequest msg)) \<longleftrightarrow>
        (\<exists>msg. validate req vehicles locations = Inl (BadRequest msg))"
    by (auto simp: createOptimization_def split: sum.splits)
  then show ?thesis
    unfolding validate_rejects_iff .
qed

text \<open>Scenario S5: 101 location identifiers are rejected, whatever the database holds.\<close>

theorem createOptimization_rejects_iff_witness:
  "length (the (locationIds (mk_request [''v1''] (replicate 101 ''l'')))) > 100 \<and>
   (\<exists>msg. createOptimization (mk_request [''v1''] (replicate 101 ''l''))
       [mk_vehicle ''v1'' 10 1] [mk_location ''l'' (Num 0) (Num 0) 0 True]
       (\<lambda>vs ls depot. ls) = Inl (BadRequest msg))"
  using createOptimization_rejects_iff [of "mk_request [''v1''] (replicate 101 ''l'')"
      "[mk_vehicle ''v1'' 10 1]" "[mk_location ''l'' (Num 0) (Num 0) 0 True]" "\<lambda>vs ls depot. ls"]
  by (simp add: mk_request_def)

text \<open>
  The claim as stated fails for non-finite coordinates: an instance whose customer has
  the latitude \<open>Infinity\<close> passes every check and reaches the algorithms.
\<close>

theorem createOptimization_non_finite_counterexample:
  "createOptimization (mk_request [''v1''] [''d'', ''a''])
     [mk_vehicle ''v1'' 10 1]
     [mk_location ''d'' (Num 0) (Num 0) 0 True, mk_location ''a'' PInf (Num 1) 5 False]
     (\<lambda>vs ls depot. map loc_id ls)
   = Inr [''d'', ''a'']"
  by (simp add: createOptimization_def validate_def mk_request_def mk_location_def
      is_white_space_def trim_def)

section \<open>Properties of the distance model\<close>

lemma calculateDistance_guard:
  "(\<exists>c\<in>{a1, o1, a2, o2}. c = NotANumber \<or> c = Number NaN) \<Longrightarrow>
   calculateDistance a1 o1 a2 o2 = Num 0"
  by (cases a1; cases o1; cases a2; cases o2) auto

lemma toRad_zero: "toRad (Num 0) = Num 0"
proof -
  obtain p where p: "math_PI = Num p" using math_PI_bounds by blast
  show ?thesis by (simp add: toRad_def p fl_0)
qed

lemma toRad_PInf: "toRad PInf = PInf"
proof -
  obtain p where p: "math_PI = Num p" "0 < p" using math_PI_bounds by blast
  show ?thesis
    using p(2) by (simp add: toRad_def p(1) inf_of_sign_def)
qed

lemma toRad_NInf: "toRad NInf = NInf"
proof -
  obtain p where p: "math_PI = Num p" "0 < p" using math_PI_bounds by blast
  show ?thesis
    using p(2) by (simp add: toRad_def p(1) inf_of_sign_def)
qed

lemma calculateDistance_same_point:
  "calculateDistance (Number (Num 0)) (Number (Num 0)) (Number (Num 0)) (Number (Num 0)) = Num 0"
  by (simp add: haversine_km_def Let_def jsub_def toRad_zero fl_exact atan2_def)

lemma atan2_bound: "\<bar>atan2 y x\<bar> \<le> 6"
proof -
  have "- (pi / 2) < arctan (y / x)" "arctan (y / x) < pi / 2"
    by (rule arctan_lbound, rule arctan_ubound)
  with pi_less_4 pi_gt_zero show ?thesis
    unfolding atan2_def abs_le_iff by (simp; linarith)
qed

text \<open>
  The distance from \<open>(0, 0)\<close> to \<open>(0, 1)\<close> is a finite number: every intermediate result
  stays within bounds, and the haversine \<open>a\<close> stays between \<open>0\<close> and \<open>1\<close>.
\<close>

lemma haversine_km_one_degree:
  "\<exists>x. haversine_km (Num 0) (Num 0) (Num 0) (Num 1) = Num x"
proof -
  obtain p where p: "math_PI = Num p" "0 < p" "p \<le> 5"
    using math_PI_bounds by blast
  have "\<bar>p\<bar> \<le> 5" using p by simp
  from fl_bound [OF this, of 6] obtain p1 where p1: "fl p = Num p1" "\<bar>p1\<bar> \<le> 6"
    by auto
  have "\<bar>p1 / 180\<bar> \<le> 1 / 30" using p1(2) by simp
  from fl_bound [OF this, of "1 / 20"] obtain r where r: "fl (p1 / 180) = Num r" "\<bar>r\<bar> \<le> 1 / 20"
    by auto
  have "\<bar>r / 2\<bar> \<le> 1 / 40" using r(2) by simp
  from fl_bound [OF this, of "1 / 20"] obtain h where h: "fl (r / 2) = Num h" "\<bar>h\<bar> \<le> 1 / 20"
    by auto
  have "\<bar>sin h\<bar> \<le> 1 / 20"
    using abs_sin_x_le_abs_x [of h] h(2) by linarith
  from fl_bound [OF this, of "1 / 10"] obtain s where s: "fl (sin h) = Num s" "\<bar>s\<bar> \<le> 1 / 10"
    by auto
  have "\<bar>s * s\<bar> \<le> 1 / 10 * (1 / 10)"
    unfolding abs_mult using s(2) by (intro mult_mono) simp_all
  then have ss: "\<bar>s * s\<bar> \<le> 1 / 100" "0 \<le> s * s"
    by simp_all
  from fl_bound [OF ss(1), of "1 / 50"] ss(2) obtain s2 where
    s2: "fl (s * s) = Num s2" "\<bar>s2\<bar> \<le> 1 / 50" "0 \<le> s2"
    by auto
  from fl_bound [OF s2(2), of "1 / 25"] s2(3) obtain t where
    t: "fl s2 = Num t" "\<bar>t\<bar> \<le> 1 / 25" "0 \<le> t"
    by auto
  from fl_bound [OF t(2), of "1 / 10"] t(3) obtain a where
    a: "fl t = Num a" "\<bar>a\<bar> \<le> 1 / 10" "0 \<le> a"
    by auto
  have "\<bar>sqrt a\<bar> \<le> 1"
    using a by (simp add: real_le_lsqrt)
  from fl_bound [OF this, of 2] obtain sa where sa: "fl (sqrt a) = Num sa"
    by auto
  have b0: "\<bar>1 - a\<bar> \<le> 1" "0 \<le> 1 - a"
    using a by simp_all
  from fl_bound [OF b0(1), of 2] b0(2) obtain b where
    b: "fl (1 - a) = Num b" "\<bar>b\<bar> \<le> 2" "0 \<le> b"
    by auto
  have "\<bar>sqrt b\<bar> \<le> 2"
    using b by (simp add: real_le_lsqrt)
  from fl_bound [OF this, of 3] obtain sb where sb: "fl (sqrt b) = Num sb"
    by auto
  from fl_bound [OF atan2_bound, of 7] obtain q where q: "fl (atan2 sa sb) = Num q" "\<bar>q\<bar> \<le> 7"
    by auto
  have "\<bar>2 * q\<bar> \<le> 14" using q(2) by simp
  from fl_bound [OF this, of 15] obtain c where c: "fl (2 * q) = Num c" "\<bar>c\<bar> \<le> 15"
    by auto
  have "\<bar>6371 * c\<bar> \<le> 95565" using c(2) by simp
  from fl_bound [OF this, of 100000] obtain rc where rc: "fl (6371 * c) = Num rc" "\<bar>rc\<bar> \<le> 100000"
    by auto
  have "\<bar>rc * 1000\<bar> \<le> 100000000" using rc(2) by simp
  from fl_bound [OF this, of 1000000000] obtain m where
    m: "fl (rc * 1000) = Num m" "\<bar>m\<bar> \<le> 1000000000"
    by auto
  have "\<bar>real_of_int \<lfloor>m + 1 / 2\<rfloor>\<bar> \<le> 1000000001"
    using m(2) by linarith
  then have "\<bar>real_of_int \<lfloor>m + 1 / 2\<rfloor> / 1000\<bar> \<le> 10000000"
    by simp
  from fl_bound [OF this, of 20000000] obtain x where
    x: "fl (real_of_int \<lfloor>m + 1 / 2\<rfloor> / 1000) = Num x"
    by auto
  have "haversine_km (Num 0) (Num 0) (Num 0) (Num 1) = Num x"
    using a(3) b(3)
    by (simp add: haversine_km_def Let_def jsub_def toRad_zero toRad_def fl_exact p(1) p1(1) r(1)
        h(1) s(1) s2(1) t(1) a(1) sa b(1) sb q(1) c(1) rc(1) m(1) x)
  then show ?thesis ..
qed

lemma jadd_NaN_right: "jadd x NaN = NaN"
  by (cases x) auto

lemma jmul_NaN_right: "jmul x NaN = NaN"
  by (cases x) auto

lemma jsub_infinite:
  "x = PInf \<or> x = NInf \<or> y = PInf \<or> y = NInf \<Longrightarrow>
   jsub y x = NaN \<or> jsub y x = PInf \<or> jsub y x = NInf"
  by (cases x; cases y) (auto simp: jsub_def)

lemma toRad_NaN: "toRad NaN = NaN"
  by (simp add: toRad_def)

lemma sin_half_toRad:
  "z = NaN \<or> z = PInf \<or> z = NInf \<Longrightarrow> math_sin (jdiv (toRad z) (Num 2)) = NaN"
  by (auto simp: toRad_NaN toRad_PInf toRad_NInf inf_of_sign_def)

text \<open>With the haversine \<open>a\<close> not a number, the result of \<open>calculateDistance\<close> is not a number.\<close>

lemma haversine_km_NaN:
  assumes "math_sin (jdiv (toRad (jsub lat2 lat1)) (Num 2)) = NaN \<or>
           math_sin (jdiv (toRad (jsub lon2 lon1)) (Num 2)) = NaN"
  shows "haversine_km lat1 lon1 lat2 lon2 = NaN"
  using assms
  by (auto simp: haversine_km_def Let_def jsub_def jadd_NaN_right jmul_NaN_right)

text \<open>
  C4 fails on the code. The guard of \<open>calculateDistance\<close> tests the coordinates with
  \<open>isNaN\<close>: a coordinate that is \<open>Infinity\<close> or \<open>-Infinity\<close> passes it, and whenever a
  coordinate is infinite and none is \<open>NaN\<close> the result is \<open>NaN\<close>, not \<open>0\<close>.
\<close>

theorem calculateDistance_infinite:
  "(lat1 = PInf \<or> lat1 = NInf \<or> lon1 = PInf \<or> lon1 = NInf \<or>
    lat2 = PInf \<or> lat2 = NInf \<or> lon2 = PInf \<or> lon2 = NInf) \<and>
   lat1 \<noteq> NaN \<and> lon1 \<noteq> NaN \<and> lat2 \<noteq> NaN \<and> lon2 \<noteq> NaN \<longrightarrow>
   calculateDistance (Number lat1) (Number lon1) (Number lat2) (Number lon2) = NaN"
proof (intro impI, elim conjE)
  assume inf: "lat1 = PInf \<or> lat1 = NInf \<or> lon1 = PInf \<or> lon1 = NInf \<or>
    lat2 = PInf \<or> lat2 = NInf \<or> lon2 = PInf \<or> lon2 = NInf"
    and nn: "lat1 \<noteq> NaN" "lon1 \<noteq> NaN" "lat2 \<noteq> NaN" "lon2 \<noteq> NaN"
  from inf consider "lat1 = PInf \<or> lat1 = NInf \<or> lat2 = PInf \<or> lat2 = NInf"
    | "lon1 = PInf \<or> lon1 = NInf \<or> lon2 = PInf \<or> lon2 = NInf"
    by blast
  then have "haversine_km lat1 lon1 lat2 lon2 = NaN"
  proof cases
    case 1
    from sin_half_toRad [OF jsub_infinite [OF this]] show ?thesis
      by (intro haversine_km_NaN) simp
  next
    case 2
    from sin_half_toRad [OF jsub_infinite [OF this]] show ?thesis
      by (intro haversine_km_NaN) simp
  qed
  with nn show "calculateDistance (Number lat1) (Number lon1) (Number lat2) (Number lon2) = NaN"
    by simp
qed

text \<open>
  The latitude \<open>Infinity\<close> against the latitude \<open>NaN\<close>, which the guard catches, and a value
  that is not of type number.
\<close>

theorem calculateDistance_infinite_witness:
  "PInf \<noteq> NaN \<and> Num 0 \<noteq> NaN \<and>
   calculateDistance (Number PInf) (Number (Num 0)) (Number (Num 0)) (Number (Num 0)) = NaN \<and>
   calculateDistance (Number (Num 0)) (Number (Num 0)) (Number (Num 0)) (Number NInf) = NaN \<and>
   calculateDistance (Number NaN) (Number (Num 0)) (Number (Num 0)) (Number (Num 0)) = Num 0 \<and>
   calculateDistance NotANumber (Number (Num 0)) (Number (Num 0)) (Number (Num 0)) = Num 0"
  using calculateDistance_infinite [of PInf "Num 0" "Num 0" "Num 0"]
    calculateDistance_infinite [of "Num 0" "Num 0" "Num 0" NInf]
  by simp

lemma math_sqrt_cases:
  "math_sqrt z = NaN \<or> math_sqrt z = PInf \<or> (\<exists>y. math_sqrt z = Num y \<and> 0 \<le> y)"
proof (cases z)
  case (Num v)
  show ?thesis
  proof (cases "v < 0")
    case True
    with Num show ?thesis by simp
  next
    case False
    then have "0 \<le> sqrt v" by simp
    from fl_nonneg_cases [OF this] Num False show ?thesis
      by auto
  qed
qed simp_all

lemma atan2_quadrant:
  assumes "0 \<le> y" and "0 \<le> x"
  shows "0 \<le> atan2 y x" and "atan2 y x \<le> 2"
proof -
  have "0 \<le> y / x"
    using assms by simp
  then have "0 \<le> arctan (y / x)"
    by simp
  moreover have "arctan (y / x) < pi / 2"
    by (rule arctan_ubound)
  ultimately show "0 \<le> atan2 y x" "atan2 y x \<le> 2"
    using assms pi_less_4 pi_gt_zero unfolding atan2_def by (auto; linarith)+
qed

lemma math_atan2_cases:
  assumes "sa = NaN \<or> sa = PInf \<or> (\<exists>y. sa = Num y \<and> 0 \<le> y)"
    and "sb = NaN \<or> sb = PInf \<or> (\<exists>y. sb = Num y \<and> 0 \<le> y)"
  shows "math_atan2 sa sb = NaN \<or>
         (\<exists>q. math_atan2 sa sb = Num q \<and> 0 \<le> q \<and> q \<le> 2 + 1 / 1000000000)"
proof -
  have h: "0 \<le> pi / 2" "pi / 2 \<le> 2" "0 \<le> pi / 4" "pi / 4 \<le> 2"
    using pi_less_4 pi_gt_zero by simp_all
  note r = fl_unit_range [OF h(1,2)] fl_unit_range [OF h(3,4)]
  from assms show ?thesis
  proof (elim disjE exE conjE)
    fix y x assume "sa = Num y" "0 \<le> y" "sb = Num x" "0 \<le> x"
    with fl_unit_range [OF atan2_quadrant [of y x]] show ?thesis
      by simp
  qed (use r in \<open>auto simp: jadd_NaN_right\<close>)
qed

text \<open>
  A distance that \<open>calculateDistance\<close> returns as a finite number is between \<open>0\<close> and
  \<open>26000\<close> km.
\<close>

lemma haversine_km_range:
  assumes "haversine_km lat1 lon1 lat2 lon2 = Num d"
  shows "0 \<le> d \<and> d \<le> 26000"
proof -
  define a where "a = jadd (jmul (math_sin (jdiv (toRad (jsub lat2 lat1)) (Num 2)))
        (math_sin (jdiv (toRad (jsub lat2 lat1)) (Num 2))))
      (jmul (jmul (math_cos (toRad lat1)) (math_cos (toRad lat2)))
        (jmul (math_sin (jdiv (toRad (jsub lon2 lon1)) (Num 2)))
          (math_sin (jdiv (toRad (jsub lon2 lon1)) (Num 2)))))"
  define t where "t = math_atan2 (math_sqrt a) (math_sqrt (jsub (Num 1) a))"
  have res: "haversine_km lat1 lon1 lat2 lon2
      = jdiv (math_round (jmul (jmul (Num 6371) (jmul (Num 2) t)) (Num 1000))) (Num 1000)"
    by (simp add: haversine_km_def Let_def a_def t_def)
  from math_atan2_cases [OF math_sqrt_cases math_sqrt_cases, of a "jsub (Num 1) a"]
  consider "t = NaN" | q where "t = Num q" "0 \<le> q" "q \<le> 2 + 1 / 1000000000"
    unfolding t_def by blast
  then show ?thesis
  proof cases
    case 1
    with assms res show ?thesis by simp
  next
    case 2
    have "0 \<le> 2 * q" "2 * q \<le> 5" using 2 by simp_all
    from fl_near_nonneg [OF this] obtain c where c: "fl (2 * q) = Num c" "0 \<le> c"
      "c \<le> 5 + 1 / 1000000000"
      by auto
    have c4: "c \<le> 4 + 1 / 100000000"
    proof -
      have "\<bar>2 * q\<bar> \<le> 1000000" using 2 by simp
      from fl_near [OF this] c(1) have "\<bar>c - 2 * q\<bar> \<le> 1 / 1000000000"
        by simp
      with 2(3) show ?thesis by linarith
    qed
    have "0 \<le> 6371 * c" "6371 * c \<le> 25484 + 1 / 10" using c(2) c4 by simp_all
    from fl_near_nonneg [OF this] obtain rc where rc: "fl (6371 * c) = Num rc" "0 \<le> rc"
      "rc \<le> 25484 + 1 / 10 + 1 / 1000000000"
      by auto
    then have "rc \<le> 25485" by simp
    have "\<bar>rc * 1000\<bar> \<le> 25485000" using rc(2) \<open>rc \<le> 25485\<close> by simp
    from fl_bound [OF this, of 25486000] rc(2) obtain m where
      m: "fl (rc * 1000) = Num m" "0 \<le> m" "m \<le> 25486000"
      by auto
    define k where "k = real_of_int \<lfloor>m + 1 / 2\<rfloor>"
    have "0 \<le> m + 1 / 2"
      using m(2) by simp
    then have k0: "0 \<le> k"
      unfolding k_def by simp
    have k1: "k \<le> 25486001"
      unfolding k_def using m(3) by linarith
    note k = k0 k1
    then have "0 \<le> k / 1000" "k / 1000 \<le> 25487"
      by simp_all
    from fl_near_nonneg [OF this] obtain x where x: "fl (k / 1000) = Num x" "0 \<le> x"
      "x \<le> 25487 + 1 / 1000000000"
      by auto
    then have "x \<le> 26000" by simp
    have "haversine_km lat1 lon1 lat2 lon2 = Num x"
      unfolding res by (simp add: 2(1) c(1) rc(1) m(1) x(1) [unfolded k_def])
    with assms x(2) \<open>x \<le> 26000\<close> show ?thesis
      by simp
  qed
qed

lemma calculateDistance_range:
  assumes "calculateDistance a1 o1 a2 o2 = Num d"
  shows "0 \<le> d \<and> d \<le> 26000"
proof (cases "\<exists>lat1 lon1 lat2 lon2. a1 = Number lat1 \<and> o1 = Number lon1 \<and> a2 = Number lat2 \<and>
    o2 = Number lon2 \<and> lat1 \<noteq> NaN \<and> lon1 \<noteq> NaN \<and> lat2 \<noteq> NaN \<and> lon2 \<noteq> NaN")
  case True
  with assms haversine_km_range show ?thesis
    by auto
next
  case False
  then have "calculateDistance a1 o1 a2 o2 = Num 0"
    by (cases a1; cases o1; cases a2; cases o2) auto
  with assms show ?thesis
    by simp
qed

section \<open>Properties of the route metrics\<close>









text \<open>
  The matrix that the algorithms build holds, wherever it holds a finite number, a
  distance within these bounds.
\<close>

lemma distance_matrix_entry_range:
  "entry (distance_matrix locations) a b = Some (Num d) \<Longrightarrow> 0 \<le> d \<and> d \<le> 26000"
  by (auto simp: entry_def distance_matrix_def split: option.splits dest: calculateDistance_range)

lemma distance_matrix_bounded_legs:
  assumes "length ss \<le> 102"
    and "\<forall>k\<in>set [0..<length ss - 1]. finite_entry (distance_matrix locations) ss k \<noteq> None"
  shows "bounded_legs (distance_matrix locations) ss"
  unfolding bounded_legs_def
proof (intro conjI ballI)
  show "length ss \<le> 102" by (rule assms(1))
next
  fix k assume "k \<in> set [0..<length ss - 1]"
  with assms(2) obtain d where d: "finite_entry (distance_matrix locations) ss k = Some d"
    by blast
  then have "entry (distance_matrix locations) (locationId (ss ! k)) (locationId (ss ! (k + 1)))
      = Some (Num d)"
    by (auto simp: finite_entry_def split: option.splits jsnum.splits)
  from distance_matrix_entry_range [OF this] d
  show "case finite_entry (distance_matrix locations) ss k of
      Some d \<Rightarrow> 0 \<le> d \<and> d \<le> 26000 | None \<Rightarrow> False"
    by simp
qed





section \<open>Properties of the savings phase\<close>

















text \<open>
  Above \<open>2^53\<close> the sum is rounded: for the demands \<open>2^53\<close> and \<open>1\<close> and a vehicle of capacity
  \<open>2^53\<close> the combined demand is \<open>2^53\<close>, and the two routes are merged.
\<close>

lemma cw_savings_phase_rounds:
  "maxCapacity [mk_vehicle ''v'' 9007199254740992 1] = Num 9007199254740992 \<and>
   map (\<lambda>r. (map locationId (stops r), totalCapacity r))
     (cw_savings_phase ex_matrix (maxCapacity [mk_vehicle ''v'' 9007199254740992 1])
       [(mk_location ''a'' (Num 0) (Num 1) 9007199254740992 False,
         mk_location ''b'' (Num 0) (Num 2) 1 False, Num 2)]
       [cw_initial_route ex_matrix (mk_location ''d'' (Num 0) (Num 0) 0 True)
          (mk_location ''a'' (Num 0) (Num 1) 9007199254740992 False),
        cw_initial_route ex_matrix (mk_location ''d'' (Num 0) (Num 0) 0 True)
          (mk_location ''b'' (Num 0) (Num 2) 1 False)])
   = [([''d'', ''a'', ''b'', ''d''], Num 9007199254740992)]"
proof -
  have tie: "fl 9007199254740993 = Num 9007199254740992"
    using fl_tie by simp
  show ?thesis
    by (simp add: cw_savings_phase_def cw_merge_step_def maxCapacity_def mk_vehicle_def
        cw_initial_route_def makeDepotStop_def mk_location_def isEndEndpoint_def
        isStartEndpoint_def renumber_def enumerate_eq_zip splice_replace_def splice_remove_def
        recomputeRouteMetrics_def or_zero_def tie Let_def upt_conv_Cons del: upt_Suc)
qed

section \<open>Properties of the 3-opt pass\<close>

text \<open>
  What the six candidates of one triple are: identity, reverse \<open>B\<close>, the double-reverse,
  the swap with both segments reversed, the swap with \<open>B\<close> reversed, and reverse \<open>C\<close>.
\<close>

lemma threeOpt_candidates_eq:
  "threeOpt_candidates seq i j k =
     (let A = slice 0 i seq; B = slice i j seq; C = slice j k seq; D = drop k seq
      in [A @ B @ C @ D, A @ rev B @ C @ D, A @ rev B @ rev C @ D, A @ rev C @ rev B @ D,
          A @ C @ rev B @ D, A @ B @ rev C @ D])"
  by (simp add: threeOpt_candidates_def Let_def)

text \<open>
  The test \<open>d + 1e-9 < bestD\<close> on two integer lengths of at most \<open>1000000\<close>: it holds
  exactly when \<open>d < bestD\<close>, the tolerance being more than the rounding error of the sum
  and less than \<open>1\<close>.
\<close>

lemma tolerance_bounds: "\<exists>t. tolerance = Num t \<and> 9 / 10000000000 \<le> t \<and> t \<le> 2 / 1000000000"
proof -
  have "\<bar>1 / 10 ^ 9 :: real\<bar> \<le> 2 ^ 1023"
    by (simp add: abs_if)
  from fl_error [OF this] obtain t where t: "fl (1 / 10 ^ 9) = Num t"
    "\<bar>t - 1 / 10 ^ 9\<bar> \<le> \<bar>1 / 10 ^ 9\<bar> / 2 ^ 53 + 1 / 2 ^ 1075"
    by blast
  have "\<bar>1 / 10 ^ 9 :: real\<bar> / 2 ^ 53 + 1 / 2 ^ 1075 \<le> 1 / 10000000000"
    by simp
  with t(2) have "\<bar>t - 1 / 10 ^ 9\<bar> \<le> 1 / 10000000000"
    by (rule order_trans)
  then have "\<bar>t - 1 / 1000000000\<bar> \<le> 1 / 10000000000"
    by simp
  then have "9 / 10000000000 \<le> t \<and> t \<le> 2 / 1000000000"
    by linarith
  with t(1) show ?thesis
    by (simp add: tolerance_def)
qed

lemma improves_of_int:
  assumes "\<bar>d\<bar> \<le> 1000000"
  shows "jlt (jadd (Num (of_int d)) tolerance) (Num (of_int b)) \<longleftrightarrow> d < b"
proof -
  obtain t where t: "tolerance = Num t" "9 / 10000000000 \<le> t" "t \<le> 2 / 1000000000"
    using tolerance_bounds by blast
  define x where "x = real_of_int d + t"
  have d: "\<bar>real_of_int d\<bar> \<le> 1000000"
    using assms by (metis of_int_abs of_int_le_iff of_int_numeral)
  with t have x: "\<bar>x\<bar> \<le> 2000000" "real_of_int d + 9 / 10000000000 \<le> x"
    "x \<le> real_of_int d + 2 / 1000000000"
    unfolding x_def by linarith+
  have "(2000000::real) \<le> 2 ^ 1023"
    by simp
  with x(1) have "\<bar>x\<bar> \<le> 2 ^ 1023"
    by (rule order_trans)
  from fl_error [OF this] obtain y where y: "fl x = Num y"
    "\<bar>y - x\<bar> \<le> \<bar>x\<bar> / 2 ^ 53 + 1 / 2 ^ 1075"
    by blast
  have "\<bar>x\<bar> / 2 ^ 53 \<le> 2000000 / 2 ^ 53"
    using x(1) by (simp add: divide_right_mono)
  also have "\<dots> \<le> 4 / 10000000000"
    by simp
  finally have a: "\<bar>x\<bar> / 2 ^ 53 \<le> 4 / 10000000000" .
  have b: "(1::real) / 2 ^ 1075 \<le> 4 / 10000000000"
    by simp
  have "\<bar>x\<bar> / 2 ^ 53 + 1 / 2 ^ 1075 \<le> 4 / 10000000000 + 4 / 10000000000"
    using a b by (rule add_mono)
  with y(2) have "\<bar>y - x\<bar> \<le> 4 / 10000000000 + 4 / 10000000000"
    by (rule order_trans)
  with x(2,3) have yb: "real_of_int d < y" "y < real_of_int d + 1"
    by linarith+
  have "y < real_of_int b \<longleftrightarrow> d < b"
  proof
    assume "y < real_of_int b"
    with yb(1) have "real_of_int d < real_of_int b" by linarith
    then show "d < b" by simp
  next
    assume "d < b"
    then have "real_of_int d + 1 \<le> real_of_int b"
      by (metis of_int_1 of_int_add of_int_le_iff zless_imp_add1_zle)
    with yb(2) show "y < real_of_int b" by linarith
  qed
  then show ?thesis
    by (simp add: t(1) y(1) [unfolded x_def])
qed

lemma improves_numeral:
  "numeral d \<le> (1000000::int) \<Longrightarrow>
   jlt (jadd (Num (numeral d)) tolerance) (Num (numeral b)) \<longleftrightarrow> (numeral d :: int) < numeral b"
  using improves_of_int [of "numeral d" "numeral b"] by simp

lemma grid_calcDist:
  "calcDist grid_matrix grid_route = Num 24"
  by (simp add: calcDist_def grid_route_def grid_matrix_def mk_matrix_def mk_stop_def
      leg_nullish_def entry_def fl_exact)

text \<open>
  C7 fails on the code. For the route \<open>d, a, b, c, x, d\<close> and the triple \<open>(1, 3, 4)\<close> the
  swap of \<open>B = a, b\<close> and \<open>C = c\<close> is a reconnection of the spec and shortens the route
  from 24 to 22, but it is not among the candidates, and \<open>threeOptOnce\<close> returns \<open>false\<close>.
\<close>

theorem threeOptOnce_misses_swap:
  "map (map locationId) (threeOpt_candidates grid_route 1 3 4)
     = [[''d'', ''a'', ''b'', ''c'', ''x'', ''d''], [''d'', ''b'', ''a'', ''c'', ''x'', ''d''],
        [''d'', ''b'', ''a'', ''c'', ''x'', ''d''], [''d'', ''c'', ''b'', ''a'', ''x'', ''d''],
        [''d'', ''c'', ''b'', ''a'', ''x'', ''d''], [''d'', ''a'', ''b'', ''c'', ''x'', ''d'']] \<and>
   map locationId (spec_reconnections grid_route 1 3 4 ! 3)
     = [''d'', ''c'', ''a'', ''b'', ''x'', ''d''] \<and>
   calcDist grid_matrix grid_route = Num 24 \<and>
   calcDist grid_matrix (spec_reconnections grid_route 1 3 4 ! 3) = Num 22 \<and>
   threeOpt_best grid_matrix grid_route (spec_reconnections grid_route 1 3 4)
     = Some (spec_reconnections grid_route 1 3 4 ! 3) \<and>
   threeOpt_best grid_matrix grid_route (threeOpt_candidates grid_route 1 3 4) = None \<and>
   threeOptOnce grid_matrix grid_route = None"
  by (simp add: threeOptOnce_def threeOpt_triples_def threeOpt_best_def threeOpt_candidates_def
      spec_reconnections_def slice_def calcDist_def grid_route_def grid_matrix_def mk_matrix_def
      mk_stop_def leg_nullish_def entry_def fl_exact improves_numeral Let_def upt_conv_Cons
      del: upt_Suc)

section \<open>Properties of the neighbourhood moves\<close>


section \<open>Properties of the crossover\<close>

lemma place_mset:
  "mset (concat (map (\<lambda>sl. fst (snd sl)) (place slots loc)))
     \<subseteq># add_mset loc (mset (concat (map (\<lambda>sl. fst (snd sl)) slots)))"
  by (induction slots loc rule: place.induct) (auto intro: subset_mset.order_trans)

lemma foldl_place_mset:
  "mset (concat (map (\<lambda>sl. fst (snd sl)) (foldl place slots locs)))
     \<subseteq># mset locs + mset (concat (map (\<lambda>sl. fst (snd sl)) slots))"
proof (induction locs arbitrary: slots)
  case Nil
  then show ?case by simp
next
  case (Cons loc locs)
  have "mset (concat (map (\<lambda>sl. fst (snd sl)) (foldl place (place slots loc) locs)))
      \<subseteq># mset locs + mset (concat (map (\<lambda>sl. fst (snd sl)) (place slots loc)))"
    by (rule Cons.IH)
  also have "\<dots> \<subseteq># mset locs + add_mset loc (mset (concat (map (\<lambda>sl. fst (snd sl)) slots)))"
    using place_mset [of slots loc] by (simp add: subset_mset.add_left_mono)
  finally show ?case by simp
qed

lemma distinct_mset_subset:
  assumes "mset xs \<subseteq># mset ys" and "distinct ys"
  shows "distinct xs"
proof -
  have le: "Multiset.count (mset xs) a \<le> 1" for a
  proof -
    have "Multiset.count (mset xs) a \<le> Multiset.count (mset ys) a"
      using assms(1) by (rule mset_subset_eq_count)
    also have "\<dots> \<le> 1"
      using assms(2) by (simp add: distinct_count_atmost_1)
    finally show ?thesis .
  qed
  have "Multiset.count (mset xs) a = (if a \<in> set xs then 1 else 0)" for a
  proof (cases "a \<in> set xs")
    case True
    then have "Multiset.count (mset xs) a \<noteq> 0"
      by simp
    with le [of a] have "Multiset.count (mset xs) a = 1"
      by arith
    with True show ?thesis
      by simp
  next
    case False
    then show ?thesis
      by simp
  qed
  then show ?thesis
    unfolding distinct_count_atmost_1 by blast
qed

lemma served_slot_route:
  assumes "\<forall>l\<in>set locations. loc_id l \<noteq> loc_id depot"
  shows "filter (\<lambda>ident. ident \<noteq> loc_id depot)
           (map locationId (stops (slot_route distances speedKmh depot (v, locations, usedCapacity))))
         = map loc_id locations"
proof -
  have "map (\<lambda>x. loc_id (snd x)) (zip [0..<length locations] locations)
      = map loc_id (map snd (zip [0..<length locations] locations))"
    by (simp only: map_map comp_def)
  also have "\<dots> = map loc_id locations"
    by simp
  finally have "map locationId (map (\<lambda>(idx, loc). stop_of_location loc (idx + 1)) (enumerate 0 locations))
      = map loc_id locations"
    by (simp add: enumerate_eq_zip stop_of_location_def comp_def case_prod_beta)
  then show ?thesis
    using assms by (simp add: slot_route_def Let_def makeDepotStop_def filter_id_conv)
qed


lemma served_concat:
  "served depotId solution
     = concat (map (\<lambda>r. filter (\<lambda>ident. ident \<noteq> depotId) (map locationId (stops r))) solution)"
  by (induction solution) (simp_all add: served_def)

lemma createRandomSolution_served:
  assumes "\<forall>sl\<in>set vehicleSlots. \<forall>l\<in>set (fst (snd sl)). loc_id l \<noteq> loc_id depot"
  shows "served (loc_id depot)
           (map (slot_route distances speedKmh depot)
              (filter (\<lambda>(v, locations, usedCapacity). length locations > 0) vehicleSlots))
         = map loc_id (concat (map (\<lambda>sl. fst (snd sl)) vehicleSlots))"
  using assms
proof (induction vehicleSlots)
  case Nil
  then show ?case by (simp add: served_def)
next
  case (Cons sl rest)
  obtain v locations usedCapacity where sl: "sl = (v, locations, usedCapacity)"
    by (cases sl) auto
  from Cons.prems have here: "\<forall>l\<in>set locations. loc_id l \<noteq> loc_id depot"
    and there: "\<forall>sl\<in>set rest. \<forall>l\<in>set (fst (snd sl)). loc_id l \<noteq> loc_id depot"
    by (auto simp: sl)
  from Cons.IH [OF there] served_slot_route [OF here, of distances speedKmh v usedCapacity]
  show ?case
    by (cases locations) (simp_all add: sl served_concat)
qed

text \<open>
  The random solutions of the genetic algorithm serve every location at most once: the
  first-fit loop places a location on one slot or on none.
\<close>

lemma createRandomSolution_each_served_once:
  assumes "distinct (map loc_id shuffledLocations)"
    and "\<forall>l\<in>set shuffledLocations. loc_id l \<noteq> loc_id depot"
  shows "each_served_once (loc_id depot)
           (createRandomSolution vehicles depot distances speedKmh shuffledLocations)"
proof -
  let ?slots = "foldl place (map (\<lambda>v. (v, [], Num 0)) vehicles) shuffledLocations"
  let ?placed = "concat (map (\<lambda>sl. fst (snd sl)) ?slots)"
  have "concat (map ((\<lambda>sl. fst (snd sl)) \<circ> (\<lambda>v. (v, [], Num 0))) vehicles) = ([] :: location list)"
    by (induction vehicles) simp_all
  with foldl_place_mset [of "map (\<lambda>v. (v, [], Num 0)) vehicles" shuffledLocations]
  have sub: "mset ?placed \<subseteq># mset shuffledLocations"
    by simp
  then have "set ?placed \<subseteq> set shuffledLocations"
    by (metis set_mset_mono set_mset_mset)
  with assms(2) have "\<forall>sl\<in>set ?slots. \<forall>l\<in>set (fst (snd sl)). loc_id l \<noteq> loc_id depot"
    by auto
  from createRandomSolution_served [OF this]
  have served: "served (loc_id depot)
      (createRandomSolution vehicles depot distances speedKmh shuffledLocations)
      = map loc_id ?placed"
    by (simp add: createRandomSolution_def Let_def)
  from sub have "mset (map loc_id ?placed) \<subseteq># mset (map loc_id shuffledLocations)"
    by (metis image_mset_subseteq_mono mset_map)
  from distinct_mset_subset [OF this assms(1)]
  show ?thesis
    unfolding each_served_once_def served .
qed

text \<open>
  C2 fails on the code. For two vehicle types of capacity 5 and the customers \<open>a\<close> and
  \<open>b\<close> of demand 5, the random solutions for the orders \<open>a, b\<close> and \<open>b, a\<close> each serve
  every customer once; their crossover that takes the first route of the first parent
  and the second route of the second serves \<open>a\<close> twice and \<open>b\<close> never, at a lower total
  cost than either parent.
\<close>

theorem crossover_serves_twice:
  "map (\<lambda>r. map locationId (stops r))
     (createRandomSolution [mk_vehicle ''v1'' 5 1, mk_vehicle ''v2'' 5 1]
        (mk_location ''d'' (Num 0) (Num 0) 0 True) ex_matrix (Num 40)
        [mk_location ''a'' (Num 0) (Num 1) 5 False, mk_location ''b'' (Num 0) (Num 2) 5 False])
     = [[''d'', ''a'', ''d''], [''d'', ''b'', ''d'']] \<and>
   map (\<lambda>r. map locationId (stops r))
     (createRandomSolution [mk_vehicle ''v1'' 5 1, mk_vehicle ''v2'' 5 1]
        (mk_location ''d'' (Num 0) (Num 0) 0 True) ex_matrix (Num 40)
        [mk_location ''b'' (Num 0) (Num 2) 5 False, mk_location ''a'' (Num 0) (Num 1) 5 False])
     = [[''d'', ''b'', ''d''], [''d'', ''a'', ''d'']] \<and>
   each_served_once ''d''
     (createRandomSolution [mk_vehicle ''v1'' 5 1, mk_vehicle ''v2'' 5 1]
        (mk_location ''d'' (Num 0) (Num 0) 0 True) ex_matrix (Num 40)
        [mk_location ''a'' (Num 0) (Num 1) 5 False, mk_location ''b'' (Num 0) (Num 2) 5 False]) \<and>
   each_served_once ''d''
     (createRandomSolution [mk_vehicle ''v1'' 5 1, mk_vehicle ''v2'' 5 1]
        (mk_location ''d'' (Num 0) (Num 0) 0 True) ex_matrix (Num 40)
        [mk_location ''b'' (Num 0) (Num 2) 5 False, mk_location ''a'' (Num 0) (Num 1) 5 False]) \<and>
   map (\<lambda>r. (vehicle r, map locationId (stops r)))
     (crossover
        (createRandomSolution [mk_vehicle ''v1'' 5 1, mk_vehicle ''v2'' 5 1]
           (mk_location ''d'' (Num 0) (Num 0) 0 True) ex_matrix (Num 40)
           [mk_location ''a'' (Num 0) (Num 1) 5 False, mk_location ''b'' (Num 0) (Num 2) 5 False])
        (createRandomSolution [mk_vehicle ''v1'' 5 1, mk_vehicle ''v2'' 5 1]
           (mk_location ''d'' (Num 0) (Num 0) 0 True) ex_matrix (Num 40)
           [mk_location ''b'' (Num 0) (Num 2) 5 False, mk_location ''a'' (Num 0) (Num 1) 5 False])
        (\<lambda>i. if i = 0 then 1 / 5 else 7 / 10) ex_matrix (Num 40))
     = [(Some ''v1'', [''d'', ''a'', ''d'']), (Some ''v2'', [''d'', ''a'', ''d''])] \<and>
   \<not> each_served_once ''d''
     (crossover
        (createRandomSolution [mk_vehicle ''v1'' 5 1, mk_vehicle ''v2'' 5 1]
           (mk_location ''d'' (Num 0) (Num 0) 0 True) ex_matrix (Num 40)
           [mk_location ''a'' (Num 0) (Num 1) 5 False, mk_location ''b'' (Num 0) (Num 2) 5 False])
        (createRandomSolution [mk_vehicle ''v1'' 5 1, mk_vehicle ''v2'' 5 1]
           (mk_location ''d'' (Num 0) (Num 0) 0 True) ex_matrix (Num 40)
           [mk_location ''b'' (Num 0) (Num 2) 5 False, mk_location ''a'' (Num 0) (Num 1) 5 False])
        (\<lambda>i. if i = 0 then 1 / 5 else 7 / 10) ex_matrix (Num 40)) \<and>
   calculateTotalCost ex_matrix
     (crossover
        (createRandomSolution [mk_vehicle ''v1'' 5 1, mk_vehicle ''v2'' 5 1]
           (mk_location ''d'' (Num 0) (Num 0) 0 True) ex_matrix (Num 40)
           [mk_location ''a'' (Num 0) (Num 1) 5 False, mk_location ''b'' (Num 0) (Num 2) 5 False])
        (createRandomSolution [mk_vehicle ''v1'' 5 1, mk_vehicle ''v2'' 5 1]
           (mk_location ''d'' (Num 0) (Num 0) 0 True) ex_matrix (Num 40)
           [mk_location ''b'' (Num 0) (Num 2) 5 False, mk_location ''a'' (Num 0) (Num 1) 5 False])
        (\<lambda>i. if i = 0 then 1 / 5 else 7 / 10) ex_matrix (Num 40)) = Num 12 \<and>
   calculateTotalCost ex_matrix
     (createRandomSolution [mk_vehicle ''v1'' 5 1, mk_vehicle ''v2'' 5 1]
        (mk_location ''d'' (Num 0) (Num 0) 0 True) ex_matrix (Num 40)
        [mk_location ''a'' (Num 0) (Num 1) 5 False, mk_location ''b'' (Num 0) (Num 2) 5 False])
     = Num 14"
proof -
  let ?vs = "[mk_vehicle ''v1'' 5 1, mk_vehicle ''v2'' 5 1]"
  let ?d = "mk_location ''d'' (Num 0) (Num 0) 0 True"
  let ?a = "mk_location ''a'' (Num 0) (Num 1) 5 False"
  let ?b = "mk_location ''b'' (Num 0) (Num 2) 5 False"
  let ?ra = "\<lambda>v. \<lparr>vehicle = Some v, vehicleName = v,
      stops = [makeDepotStop ?d 0, stop_of_location ?a 1, makeDepotStop ?d 2],
      distance = Num 6, duration = duration_of (Num 6) (Num 40), totalCapacity = Num 5,
      capacityExceeded = None\<rparr>"
  let ?rb = "\<lambda>v. \<lparr>vehicle = Some v, vehicleName = v,
      stops = [makeDepotStop ?d 0, stop_of_location ?b 1, makeDepotStop ?d 2],
      distance = Num 8, duration = duration_of (Num 8) (Num 40), totalCapacity = Num 5,
      capacityExceeded = None\<rparr>"
  have p1: "createRandomSolution ?vs ?d ex_matrix (Num 40) [?a, ?b] = [?ra ''v1'', ?rb ''v2'']"
    by (simp add: createRandomSolution_def slot_route_def mk_vehicle_def mk_location_def
        makeDepotStop_def stop_of_location_def leg_or_zero_def entry_def or_zero_def fl_exact
        ex_matrix_def mk_matrix_def enumerate_eq_zip Let_def)
  have p2: "createRandomSolution ?vs ?d ex_matrix (Num 40) [?b, ?a] = [?rb ''v1'', ?ra ''v2'']"
    by (simp add: createRandomSolution_def slot_route_def mk_vehicle_def mk_location_def
        makeDepotStop_def stop_of_location_def leg_or_zero_def entry_def or_zero_def fl_exact
        ex_matrix_def mk_matrix_def enumerate_eq_zip Let_def)
  show ?thesis
    unfolding p1 p2
    by (simp add: each_served_once_def served_def crossover_def json_clone_def json_value_def
        json_number_def recomputeAllRouteMetrics_def calculateTotalCost_def leg_or_zero_def
        leg_or_def entry_def ex_matrix_def mk_matrix_def makeDepotStop_def stop_of_location_def
        mk_location_def or_zero_def fl_exact Let_def upt_conv_Cons del: upt_Suc)
qed

section \<open>Properties of Nearest Neighbor and the vehicle assignment\<close>

lemma nn_fill_None:
  "fst (nn_pick pending used remaining current (None, PInf)) = None \<Longrightarrow>
   nn_fill pending used remaining current rtStops ord = (used, rtStops, ord)"
  by (subst nn_fill.simps) simp

lemma nn_fill_Some:
  "fst (nn_pick pending used remaining current (None, PInf)) = Some best \<Longrightarrow>
   nn_fill pending used remaining current rtStops ord =
     nn_fill pending (used @ [loc_id best]) (jsub remaining (or_zero (loc_demand best))) best
       (rtStops @ [stop_of_location best ord]) (ord + 1)"
  by (subst nn_fill.simps) simp

lemma set_insert_by: "set (insert_by cmp x xs) = insert x (set xs)"
  by (induction xs) auto

lemma set_sort_by: "set (sort_by cmp xs) = set xs"
  by (induction xs) (simp_all add: sort_by_def set_insert_by)

text \<open>A route that \<open>assignVehiclesToRoutes\<close> gives a slot fits the capacity of that slot.\<close>

lemma assign_route_fits:
  assumes "assign_route (vehicleSlots, assigned) route = (vehicleSlots', assigned')"
  shows "\<exists>r'. assigned' = assigned @ [r'] \<and> totalCapacity r' = totalCapacity route \<and>
           stops r' = stops route \<and>
           (r' = route \<or>
            (\<exists>vs\<in>set vehicleSlots. vehicle r' = Some (slot_id vs) \<and>
               jle (or_zero (totalCapacity route)) (slot_capacity vs)))"
proof -
  let ?cands = "filter (\<lambda>(idx, vs). \<not> slot_used vs \<and>
        jle (or_zero (totalCapacity route)) (slot_capacity vs)) (enumerate 0 vehicleSlots)"
  let ?sorted = "sort_by (\<lambda>(ia, a) (ib, b). jsub (slack route a) (slack route b)) ?cands"
  show ?thesis
  proof (cases ?sorted)
    case Nil
    with assms show ?thesis
      by (auto simp: assign_route_def)
  next
    case (Cons p rest)
    obtain idx bestSlot where p: "p = (idx, bestSlot)"
      by (cases p) auto
    have "p \<in> set ?sorted"
      using Cons by simp
    then have "p \<in> set ?cands"
      unfolding set_sort_by .
    then have fit: "jle (or_zero (totalCapacity route)) (slot_capacity bestSlot)"
      and mem: "bestSlot \<in> set vehicleSlots"
      unfolding p by (auto simp: in_set_enumerate_eq)
    from assms Cons p have "assigned' = assigned @ [route\<lparr>vehicle := Some (slot_id bestSlot),
        vehicleName := slot_name bestSlot\<rparr>]"
      by (auto simp: assign_route_def)
    with fit mem show ?thesis
      by auto
  qed
qed

text \<open>
  C3 fails on the code. For a depot of demand 5, a customer of demand 8 and one vehicle
  of capacity 10, the route of Nearest Neighbor carries the vehicle and a \<open>totalCapacity\<close>
  of 13: the demand of the depot is added for both depot stops and taken off once. The
  flag \<open>capacityExceeded\<close> is not set, and \<open>assignVehiclesToRoutes\<close> leaves the route as it
  is.
\<close>

theorem nearestNeighbor_counts_depot_demand:
  "map (\<lambda>r. (vehicle r, map locationId (stops r), map demand (stops r), totalCapacity r,
              capacityExceeded r))
     (nearestNeighborAlgorithm [mk_vehicle ''v'' 10 1]
        [mk_location ''d'' (Num 0) (Num 0) 5 True, mk_location ''a'' (Num 0) (Num 1) 8 False]
        (mk_location ''d'' (Num 0) (Num 0) 5 True))
     = [(Some ''v'', [''d'', ''a'', ''d''], [Num 5, Num 8, Num 5], Num 13, None)] \<and>
   map (\<lambda>r. (vehicle r, map locationId (stops r), map demand (stops r), totalCapacity r,
              capacityExceeded r))
     (assignVehiclesToRoutes
        (nearestNeighborAlgorithm [mk_vehicle ''v'' 10 1]
           [mk_location ''d'' (Num 0) (Num 0) 5 True, mk_location ''a'' (Num 0) (Num 1) 8 False]
           (mk_location ''d'' (Num 0) (Num 0) 5 True))
        [mk_vehicle ''v'' 10 1])
     = [(Some ''v'', [''d'', ''a'', ''d''], [Num 5, Num 8, Num 5], Num 13, None)] \<and>
   \<not> list_all (capacity_respected [mk_vehicle ''v'' 10 1])
     (nearestNeighborAlgorithm [mk_vehicle ''v'' 10 1]
        [mk_location ''d'' (Num 0) (Num 0) 5 True, mk_location ''a'' (Num 0) (Num 1) 8 False]
        (mk_location ''d'' (Num 0) (Num 0) 5 True))"
proof -
  let ?d = "mk_location ''d'' (Num 0) (Num 0) 5 True"
  let ?a = "mk_location ''a'' (Num 0) (Num 1) 8 False"
  let ?v = "mk_vehicle ''v'' 10 1"
  obtain x where x: "haversine_km (Num 0) (Num 0) (Num 0) (Num 1) = Num x"
    using haversine_km_one_degree by blast
  have pick: "nn_pick [?a] [] (Num 10) ?d (None, PInf) = (Some ?a, Num x)"
    by (simp add: mk_location_def x or_zero_def)
  have first: "fst (nn_pick [?a] [] (Num 10) ?d (None, PInf)) = Some ?a"
    by (simp only: pick fst_conv)
  have second: "fst (nn_pick [?a] ([] @ [loc_id ?a]) (jsub (Num 10) (or_zero (loc_demand ?a))) ?a
      (None, PInf)) = None"
    by (simp add: mk_location_def)
  from nn_fill_Some [OF first] nn_fill_None [OF second]
  have fill: "nn_fill [?a] [] (Num 10) ?d [makeDepotStop ?d 0] 1
      = ([''a''], [makeDepotStop ?d 0, stop_of_location ?a 1], 2)"
    by (simp add: mk_location_def)
  have sel: "loc_id ?a = ''a''" "loc_id ?d = ''d''"
    by (simp_all add: mk_location_def)
  have vsel: "v_id ?v = ''v''" "v_name ?v = ''v''" "capacity ?v = Num 10" "count ?v = 1"
    by (simp_all add: mk_vehicle_def)
  have nn: "nearestNeighborAlgorithm [?v] [?d, ?a] ?d
      = [nn_close ?d ?v [makeDepotStop ?d 0, stop_of_location ?a 1] 2]"
    by (simp add: nearestNeighborAlgorithm_def expand_slots_def fill sel vsel or_zero_def
        del: One_nat_def)
  have route: "(\<lambda>r. (vehicle r, map locationId (stops r), map demand (stops r), totalCapacity r,
              capacityExceeded r)) (nn_close ?d ?v [makeDepotStop ?d 0, stop_of_location ?a 1] 2)
      = (Some ''v'', [''d'', ''a'', ''d''], [Num 5, Num 8, Num 5], Num 13, None)"
    by (simp add: nn_close_def makeDepotStop_def stop_of_location_def mk_location_def
        mk_vehicle_def or_zero_def jsub_def fl_exact Let_def)
  have tc: "totalCapacity (nn_close ?d ?v [makeDepotStop ?d 0, stop_of_location ?a 1] 2) = Num 13"
    using route by simp
  have assign: "assignVehiclesToRoutes [nn_close ?d ?v [makeDepotStop ?d 0, stop_of_location ?a 1] 2] [?v]
      = [nn_close ?d ?v [makeDepotStop ?d 0, stop_of_location ?a 1] 2]"
    by (simp add: assignVehiclesToRoutes_def assign_route_def assign_slots_def expand_slots_def
        sort_by_def vsel tc or_zero_def enumerate_eq_zip del: One_nat_def)
  have bad: "\<not> capacity_respected [?v] (nn_close ?d ?v [makeDepotStop ?d 0, stop_of_location ?a 1] 2)"
    using route by (simp add: capacity_respected_def vsel del: One_nat_def)
  show ?thesis
    unfolding nn assign using route bad by simp
qed

end
